theory Spec2Isabelle
  imports Complex_Main "HOL-Library.Product_Lexorder"
begin

section \<open>Numbers\<close>

text \<open>
  The program computes with Python floats and unbounded ints. Floats are modelled by
  \<^typ>\<open>real\<close> (exact arithmetic, no NaN, no rounding error), ints by \<^typ>\<open>int\<close>.
  \<open>int(x)\<close> truncates toward zero; \<open>round(x)\<close> rounds half to even;
  \<open>round(x, n)\<close> does the same at the n-th decimal.
\<close>

definition py_int :: "real \<Rightarrow> int" where
  "py_int x = (if 0 \<le> x then \<lfloor>x\<rfloor> else \<lceil>x\<rceil>)"

definition py_round :: "real \<Rightarrow> int" where
  "py_round x =
     (let f = \<lfloor>x\<rfloor>; d = x - of_int f
      in if d < 1 / 2 then f
         else if 1 / 2 < d then f + 1
         else if even f then f else f + 1)"

definition py_round_nd :: "real \<Rightarrow> nat \<Rightarrow> real" where
  "py_round_nd x n = of_int (py_round (x * 10 ^ n)) / 10 ^ n"

section \<open>config.py\<close>

text \<open>
  The \<open>CONFIG\<close> dictionary. Keys read with \<open>CONFIG.get(key, default)\<close> are optional
  fields; keys read with \<open>CONFIG[key]\<close> are plain fields.
\<close>

record config =
  cfg_sandbox :: "bool option"
  cfg_capital_limit :: real
  cfg_max_trade_size :: "real option"
  cfg_min_capital_to_trade :: real
  cfg_max_contract_price :: real
  cfg_min_days_to_expiry :: int
  cfg_min_signal_score :: real

definition CONFIG :: config where
  "CONFIG = \<lparr> cfg_sandbox = Some True, cfg_capital_limit = 500,
     cfg_max_trade_size = Some 125, cfg_min_capital_to_trade = 20,
     cfg_max_contract_price = 3, cfg_min_days_to_expiry = 0,
     cfg_min_signal_score = 13 \<rparr>"

definition sandbox_on :: "config \<Rightarrow> bool" where
  "sandbox_on cfg = (case cfg_sandbox cfg of None \<Rightarrow> True | Some b \<Rightarrow> b)"

section \<open>signal engine: one timeframe\<close>

datatype direction = CALL | PUT

text \<open>
  A price bar of a fetched frame, and the indicator samples that
  \<open>_score_timeframe\<close> reads off the pandas series of a frame (\<open>rsi.iloc[-1]\<close>,
  \<open>hist.iloc[-1]\<close>, the squeeze dictionary, ...). The indicator arithmetic itself
  (exponential smoothing, rolling windows) is pandas floating point and enters the model
  as a parameter \<open>ind\<close> mapping a frame to its samples.
\<close>

record bar =
  bar_open :: real
  bar_high :: real
  bar_low :: real
  bar_close :: real
  bar_volume :: real

record indicators =
  ind_rsi :: real
  ind_rsi_prev :: real
  ind_hist_now :: real
  ind_hist_prev :: real
  ind_hist_prev2 :: real
  ind_in_squeeze :: bool
  ind_breakout :: bool
  ind_sq_direction :: direction
  ind_sq_strength :: real
  ind_avg_vol :: real
  ind_cur_vol :: real
  ind_obv_trend :: bool
  ind_vwap :: real
  ind_price :: real

datatype tf_reason =
    RsiStrong | RsiBullish | RsiOversold | RsiBearish
  | MacdAccelBullish | MacdBullish | MacdAccelBearish | MacdBearish
  | SqueezeBreakout direction | SqueezeBuilding
  | VolumeSurgeObvRising | VolumeSurgeObvFalling | VolumeSurge
  | AboveVwap | BelowVwap

record tf_score =
  tf_points :: int
  tf_direction :: "direction option"
  tf_votes :: "(nat \<times> nat) option"
  tf_reasons :: "(string \<times> tf_reason) list"

type_synonym tf_acc = "int \<times> direction list \<times> (string \<times> tf_reason) list"

definition rsi_step :: "indicators \<Rightarrow> string \<Rightarrow> tf_acc \<Rightarrow> tf_acc" where
  "rsi_step i label acc = (case acc of (score, directions, reasons) \<Rightarrow>
     if ind_rsi i > 70 \<and> ind_rsi i > ind_rsi_prev i
       then (score + 3, directions @ [CALL], reasons @ [(label, RsiStrong)])
     else if ind_rsi i > 60
       then (score + 2, directions @ [CALL], reasons @ [(label, RsiBullish)])
     else if ind_rsi i < 30 \<and> ind_rsi i < ind_rsi_prev i
       then (score + 3, directions @ [PUT], reasons @ [(label, RsiOversold)])
     else if ind_rsi i < 40
       then (score + 2, directions @ [PUT], reasons @ [(label, RsiBearish)])
     else acc)"

definition macd_step :: "indicators \<Rightarrow> string \<Rightarrow> tf_acc \<Rightarrow> tf_acc" where
  "macd_step i label acc = (case acc of (score, directions, reasons) \<Rightarrow>
     if ind_hist_now i > 0 \<and> ind_hist_now i > ind_hist_prev i \<and> ind_hist_prev i > ind_hist_prev2 i
       then (score + 3, directions @ [CALL], reasons @ [(label, MacdAccelBullish)])
     else if ind_hist_now i > 0 \<and> ind_hist_now i > ind_hist_prev i
       then (score + 2, directions @ [CALL], reasons @ [(label, MacdBullish)])
     else if ind_hist_now i < 0 \<and> ind_hist_now i < ind_hist_prev i \<and> ind_hist_prev i < ind_hist_prev2 i
       then (score + 3, directions @ [PUT], reasons @ [(label, MacdAccelBearish)])
     else if ind_hist_now i < 0 \<and> ind_hist_now i < ind_hist_prev i
       then (score + 2, directions @ [PUT], reasons @ [(label, MacdBearish)])
     else acc)"

definition squeeze_step :: "indicators \<Rightarrow> string \<Rightarrow> tf_acc \<Rightarrow> tf_acc" where
  "squeeze_step i label acc = (case acc of (score, directions, reasons) \<Rightarrow>
     if ind_breakout i \<and> ind_sq_strength i > 1 / 2
       then (score + 3, directions @ [ind_sq_direction i],
             reasons @ [(label, SqueezeBreakout (ind_sq_direction i))])
     else if ind_in_squeeze i
       then (score + 1, directions, reasons @ [(label, SqueezeBuilding)])
     else acc)"

definition volume_step :: "indicators \<Rightarrow> string \<Rightarrow> tf_acc \<Rightarrow> tf_acc" where
  "volume_step i label acc = (case acc of (score, directions, reasons) \<Rightarrow>
     let surge = (if ind_avg_vol i > 0 then ind_cur_vol i / ind_avg_vol i else 1)
     in if surge > 2 \<and> ind_obv_trend i
          then (score + 3, directions @ [CALL], reasons @ [(label, VolumeSurgeObvRising)])
        else if surge > 2 \<and> \<not> ind_obv_trend i
          then (score + 3, directions @ [PUT], reasons @ [(label, VolumeSurgeObvFalling)])
        else if surge > 3 / 2
          then (score + 2, directions @ [if ind_obv_trend i then CALL else PUT],
                reasons @ [(label, VolumeSurge)])
        else acc)"

definition vwap_step :: "indicators \<Rightarrow> string \<Rightarrow> tf_acc \<Rightarrow> tf_acc" where
  "vwap_step i label acc = (case acc of (score, directions, reasons) \<Rightarrow>
     let vwap_dev = (ind_price i - ind_vwap i) / ind_vwap i * 100
     in if vwap_dev > 3 / 2
          then (score + 1, directions @ [CALL], reasons @ [(label, AboveVwap)])
        else if vwap_dev < - (3 / 2)
          then (score + 1, directions @ [PUT], reasons @ [(label, BelowVwap)])
        else acc)"

definition majority :: "nat \<Rightarrow> nat \<Rightarrow> direction option" where
  "majority calls puts =
     (if calls > puts then Some CALL else if puts > calls then Some PUT else None)"

definition score_timeframe :: "(bar list \<Rightarrow> indicators) \<Rightarrow> bar list \<Rightarrow> string \<Rightarrow> tf_score" where
  "score_timeframe ind df label =
     (if df = [] \<or> length df < 30
        then \<lparr> tf_points = 0, tf_direction = None, tf_votes = None, tf_reasons = [] \<rparr>
      else
        (case vwap_step (ind df) label
                (volume_step (ind df) label
                  (squeeze_step (ind df) label
                    (macd_step (ind df) label
                      (rsi_step (ind df) label (0, [], []))))) of
           (score, directions, reasons) \<Rightarrow>
             let call_votes = count_list directions CALL;
                 put_votes = count_list directions PUT
             in \<lparr> tf_points = score, tf_direction = majority call_votes put_votes,
                  tf_votes = Some (call_votes, put_votes), tf_reasons = reasons \<rparr>))"

section \<open>signal engine: one ticker\<close>

datatype insider_reason =
    InsiderBought real | SeveralInsiders nat | MassiveBuy real | LargeBuy real
  | RoleBuying string

datatype catalyst_reason =
    EarningsToday | EarningsTomorrow | EarningsBuilding int | EarningsSoon int
  | MassiveGap real real bool | LargeGap real real bool | PremarketGap real bool

datatype sig_reason =
    Timeframe string tf_reason
  | AllTimeframesAgree
  | RegimeAligns string "direction option"
  | Insider insider_reason
  | Catalyst catalyst_reason

record signal =
  sig_ticker :: string
  sig_direction :: "direction option"
  sig_score :: real
  sig_price :: real
  sig_confluence :: int
  sig_regime_aligned :: bool
  sig_vol_pct :: real
  sig_timeframe_scores :: "int \<times> int \<times> int"
  sig_reasons :: "sig_reason list"
  sig_insider_bonus :: "int option"
  sig_catalyst_bonus :: "int option"

definition market_regime :: "(real \<times> real \<times> real) option \<Rightarrow> string" where
  "market_regime spy = (case spy of
       None \<Rightarrow> ''neutral''
     | Some (price, ema20, ema50) \<Rightarrow>
         if price > ema20 \<and> ema20 > ema50 then ''bull''
         else if price < ema20 \<and> ema20 < ema50 then ''bear''
         else ''neutral'')"

definition confluence_of :: "nat \<Rightarrow> nat \<Rightarrow> int" where
  "confluence_of call_tfs put_tfs =
     (if call_tfs = 3 then 4
      else if put_tfs = 3 then 4
      else if call_tfs = 2 then 2
      else if put_tfs = 2 then 2
      else 0)"

text \<open>
  The body of \<open>score_ticker\<close> from the three timeframe results on; \<open>atr_1h\<close> and
  \<open>price_1h\<close> are the last samples of the hourly ATR and close series.
\<close>

definition blend_timeframes ::
  "string \<Rightarrow> string \<Rightarrow> tf_score \<Rightarrow> tf_score \<Rightarrow> tf_score \<Rightarrow> real \<Rightarrow> real \<Rightarrow> signal" where
  "blend_timeframes ticker regime s1h s15m s5m atr_1h price_1h =
     (let directions = List.map_filter tf_direction [s1h, s15m, s5m];
          call_tfs = count_list directions CALL;
          put_tfs = count_list directions PUT;
          confluence_score = confluence_of call_tfs put_tfs;
          final_direction = majority call_tfs put_tfs;
          regime_score =
            (if regime = ''bull'' \<and> final_direction = Some CALL then 2
             else if regime = ''bear'' \<and> final_direction = Some PUT then 2
             else if regime = ''neutral'' then 1
             else (0::int));
          vol_pct = atr_1h / price_1h * 100;
          vol_score =
            (if 1 \<le> vol_pct \<and> vol_pct \<le> 4 then 2
             else if 1 / 2 \<le> vol_pct \<and> vol_pct < 1 then 1
             else (0::int));
          total_score =
            of_int (tf_points s1h) * (4 / 10) + of_int (tf_points s15m) * (35 / 100)
            + of_int (tf_points s5m) * (25 / 100)
            + of_int confluence_score + of_int regime_score + of_int vol_score;
          tf_all = map (\<lambda>(l, r). Timeframe l r)
                     (tf_reasons s1h @ tf_reasons s15m @ tf_reasons s5m);
          with_conf = (if confluence_score \<ge> 4 then AllTimeframesAgree # tf_all else tf_all);
          all_reasons =
            (if regime_score = 2 then RegimeAligns regime final_direction # with_conf
             else with_conf)
      in \<lparr> sig_ticker = ticker, sig_direction = final_direction,
           sig_score = py_round_nd total_score 1, sig_price = price_1h,
           sig_confluence = confluence_score, sig_regime_aligned = (regime_score = 2),
           sig_vol_pct = py_round_nd vol_pct 2,
           sig_timeframe_scores = (tf_points s1h, tf_points s15m, tf_points s5m),
           sig_reasons = all_reasons, sig_insider_bonus = None,
           sig_catalyst_bonus = None \<rparr>)"

text \<open>
  \<open>score_ticker\<close>: \<open>fetched\<close> is the three frames (1h, 15m, 5m), or \<open>None\<close> when a
  fetch or a computation raises, which the function catches and answers with \<open>None\<close>.
\<close>

definition score_ticker ::
  "(bar list \<Rightarrow> indicators) \<Rightarrow> (bar list \<Rightarrow> real) \<Rightarrow> string \<Rightarrow> string
     \<Rightarrow> (bar list \<times> bar list \<times> bar list) option \<Rightarrow> signal option" where
  "score_ticker ind atr ticker regime fetched = (case fetched of
       None \<Rightarrow> None
     | Some (df_1h, df_15m, df_5m) \<Rightarrow>
         if df_1h = [] \<or> df_15m = [] \<or> df_5m = [] then None
         else Some (blend_timeframes ticker regime
                      (score_timeframe ind df_1h ''1H'')
                      (score_timeframe ind df_15m ''15M'')
                      (score_timeframe ind df_5m ''5M'')
                      (atr df_1h) (bar_close (last df_1h))))"

section \<open>insider tracker: scoring of the aggregated purchases\<close>

definition CSUITE :: "string list" where
  "CSUITE = [''CEO'', ''CFO'', ''COO'', ''CTO'', ''PRESIDENT'', ''CHAIRMAN'',
     ''CHIEF EXECUTIVE'', ''CHIEF FINANCIAL'', ''DIRECTOR'', ''FOUNDER'', ''EVP'', ''SVP'']"

definition MAX_RESULTS :: nat where
  "MAX_RESULTS = 20"

text \<open>\<open>t in role\<close> on strings: \<open>t\<close> occurs in \<open>role\<close> as a contiguous substring.\<close>

fun contains :: "string \<Rightarrow> string \<Rightarrow> bool" where
  "contains [] t = (t = [])"
| "contains (c # cs) t = (take (length t) (c # cs) = t \<or> contains cs t)"

text \<open>One entry of the \<open>aggregated\<close> dictionary, with its key.\<close>

record insider_agg =
  agg_ticker :: string
  agg_total_buy_value :: real
  agg_filing_count :: nat
  agg_roles :: "string list"

record insider_buy =
  ib_ticker :: string
  ib_score :: int
  ib_total_buy_value :: real
  ib_filing_count :: nat
  ib_roles :: "string list"
  ib_reasons :: "insider_reason list"
  ib_direction :: direction

definition score_insider :: "insider_agg \<Rightarrow> insider_buy" where
  "score_insider d =
     (let val = agg_total_buy_value d;
          s1 = (2::int);
          r1 = [InsiderBought val];
          (s2, r2) = (if agg_filing_count d \<ge> 2
                      then (s1 + 1, r1 @ [SeveralInsiders (agg_filing_count d)])
                      else (s1, r1));
          (s3, r3) = (if val \<ge> 500000 then (s2 + 2, r2 @ [MassiveBuy val])
                      else if val \<ge> 100000 then (s2 + 1, r2 @ [LargeBuy val])
                      else (s2, r2));
          (s4, r4) = (case find (\<lambda>role. \<exists>t \<in> set CSUITE. contains role t) (agg_roles d) of
                        Some role \<Rightarrow> (s3 + 1, r3 @ [RoleBuying role])
                      | None \<Rightarrow> (s3, r3))
      in \<lparr> ib_ticker = agg_ticker d, ib_score = min s4 5, ib_total_buy_value = val,
           ib_filing_count = agg_filing_count d, ib_roles = agg_roles d,
           ib_reasons = r4, ib_direction = CALL \<rparr>)"

text \<open>
  \<open>get_todays_insider_buys\<close> from the aggregation on: \<open>None\<close> stands for a day
  without filings. \<open>list.sort(reverse=True)\<close> is stable, as is \<open>sort_key\<close> on the
  negated key.
\<close>

definition get_todays_insider_buys :: "insider_agg list option \<Rightarrow> insider_buy list" where
  "get_todays_insider_buys aggregated = (case aggregated of
       None \<Rightarrow> []
     | Some ds \<Rightarrow>
         take MAX_RESULTS
           (sort_key (\<lambda>x. (- ib_score x, - ib_total_buy_value x)) (map score_insider ds)))"

section \<open>catalyst scanner\<close>

record score_reason =
  sr_score :: int
  sr_reason :: "catalyst_reason option"
  sr_direction :: "direction option"

definition score_earnings :: "string \<Rightarrow> int option \<Rightarrow> score_reason" where
  "score_earnings ticker days_until = (case days_until of
       None \<Rightarrow> \<lparr> sr_score = 0, sr_reason = None, sr_direction = None \<rparr>
     | Some d \<Rightarrow>
         if d > 7 \<or> d < 0 then \<lparr> sr_score = 0, sr_reason = None, sr_direction = None \<rparr>
         else if d = 0 then \<lparr> sr_score = 4, sr_reason = Some EarningsToday, sr_direction = None \<rparr>
         else if d = 1 then \<lparr> sr_score = 3, sr_reason = Some EarningsTomorrow, sr_direction = None \<rparr>
         else if d \<le> 3 then \<lparr> sr_score = 2, sr_reason = Some (EarningsBuilding d), sr_direction = None \<rparr>
         else \<lparr> sr_score = 1, sr_reason = Some (EarningsSoon d), sr_direction = None \<rparr>)"

record gap =
  gap_pct :: real
  gap_prev_close :: real
  gap_current :: real
  gap_vol_ratio :: real
  gap_direction :: direction

text \<open>
  \<open>get_premarket_gaps\<close> for one ticker, from the quote it fetched (previous close, last
  price, volume ratio); \<open>None\<close> is a fetch that raised.
\<close>

definition premarket_gap :: "(real \<times> real \<times> real) option \<Rightarrow> gap option" where
  "premarket_gap info = (case info of
       None \<Rightarrow> None
     | Some (prev_close, current, vol_ratio) \<Rightarrow>
         if prev_close \<le> 0 \<or> current \<le> 0 then None
         else let g = (current - prev_close) / prev_close * 100
              in Some \<lparr> gap_pct = g, gap_prev_close = prev_close, gap_current = current,
                        gap_vol_ratio = vol_ratio,
                        gap_direction = (if g > 0 then CALL else PUT) \<rparr>)"

definition score_gap :: "string \<Rightarrow> gap option \<Rightarrow> score_reason" where
  "score_gap ticker gap_data = (case gap_data of
       None \<Rightarrow> \<lparr> sr_score = 0, sr_reason = None, sr_direction = None \<rparr>
     | Some g \<Rightarrow>
         let abs_gap = \<bar>gap_pct g\<bar>; vol = gap_vol_ratio g; confirmed = (vol \<ge> 2)
         in if abs_gap < 2 then \<lparr> sr_score = 0, sr_reason = None, sr_direction = None \<rparr>
            else
              let (score, reason) =
                    (if abs_gap \<ge> 8 then (3::int, MassiveGap (gap_pct g) vol confirmed)
                     else if abs_gap \<ge> 5 then (2, LargeGap (gap_pct g) vol confirmed)
                     else (1, PremarketGap (gap_pct g) confirmed));
                  score' = (if vol \<ge> 2 \<and> score > 0 then score + 1 else score)
              in \<lparr> sr_score = min score' 3, sr_reason = Some reason,
                   sr_direction = Some (gap_direction g) \<rparr>)"

record catalyst =
  cat_ticker :: string
  cat_earnings_score :: int
  cat_gap_score :: int
  cat_total_bonus :: int
  cat_direction_bias :: "direction option"
  cat_gap_pct :: real
  cat_days_to_earnings :: "int option"
  cat_reasons :: "catalyst_reason list"

definition scan_one ::
  "(string \<Rightarrow> int option) \<Rightarrow> (string \<Rightarrow> gap option) \<Rightarrow> string \<Rightarrow> catalyst" where
  "scan_one earnings_dates gap_data ticker =
     (let e_result = score_earnings ticker (earnings_dates ticker);
          g_result = score_gap ticker (gap_data ticker);
          total = sr_score e_result + sr_score g_result;
          reasons = (case sr_reason e_result of Some r \<Rightarrow> [r] | None \<Rightarrow> [])
                    @ (case sr_reason g_result of Some r \<Rightarrow> [r] | None \<Rightarrow> []);
          direction_bias = (if sr_score g_result \<ge> 2 then sr_direction g_result else None)
      in \<lparr> cat_ticker = ticker, cat_earnings_score = sr_score e_result,
           cat_gap_score = sr_score g_result, cat_total_bonus = min total 6,
           cat_direction_bias = direction_bias,
           cat_gap_pct = (case gap_data ticker of Some g \<Rightarrow> gap_pct g | None \<Rightarrow> 0),
           cat_days_to_earnings = earnings_dates ticker, cat_reasons = reasons \<rparr>)"

text \<open>Order-preserving removal of duplicates, first occurrence kept.\<close>

fun dedup :: "'a list \<Rightarrow> 'a list \<Rightarrow> 'a list" where
  "dedup seen [] = []"
| "dedup seen (x # xs) = (if x \<in> set seen then dedup seen xs else x # dedup (x # seen) xs)"

text \<open>
  \<open>scan\<close> fills a dictionary keyed by ticker in the order of \<open>tickers\<close>: a ticker that
  occurs twice keeps its first position.
\<close>

definition scan ::
  "(string \<Rightarrow> int option) \<Rightarrow> (string \<Rightarrow> gap option) \<Rightarrow> string list \<Rightarrow> catalyst list" where
  "scan earnings_dates gap_data tickers =
     map (scan_one earnings_dates gap_data) (dedup [] tickers)"

text \<open>The broad universe scanned for catalysts.\<close>

definition UNIVERSE :: "string list" where
  "UNIVERSE = [''AAPL'', ''MSFT'', ''NVDA'', ''AMZN'', ''META'', ''GOOGL'', ''TSLA'', ''AMD'',
     ''INTC'', ''QCOM'', ''MU'', ''AVGO'', ''AMAT'', ''KLAC'', ''LRCX'', ''MRVL'',
     ''ON'', ''SMCI'', ''ARM'', ''ASML'', ''TSM'', ''NXPI'', ''TXN'', ''COIN'',
     ''MSTR'', ''HOOD'', ''PLTR'', ''RBLX'', ''SNAP'', ''UBER'', ''LYFT'', ''SHOP'',
     ''ABNB'', ''DASH'', ''PTON'', ''RIVN'', ''LCID'', ''NIO'', ''XPEV'', ''NFLX'',
     ''SPOT'', ''PINS'', ''TWLO'', ''ZM'', ''DOCN'', ''GTLB'', ''BILL'', ''ORCL'',
     ''CRM'', ''NOW'', ''SNOW'', ''DDOG'', ''MDB'', ''NET'', ''ZS'', ''CRWD'',
     ''S'', ''PANW'', ''OKTA'', ''HUBS'', ''CFLT'', ''AI'', ''SOUN'', ''PYPL'',
     ''AFRM'', ''SOFI'', ''UPST'', ''LC'', ''NU'', ''MELI'', ''GS'', ''MS'',
     ''JPM'', ''BAC'', ''C'', ''WFC'', ''SCHW'', ''IBKR'', ''MRNA'', ''BNTX'',
     ''NVAX'', ''BIIB'', ''GILD'', ''REGN'', ''VRTX'', ''LLY'', ''PFE'', ''ABBV'',
     ''BMY'', ''AMGN'', ''ILMN'', ''INCY'', ''EXAS'', ''TGT'', ''WMT'', ''COST'',
     ''LULU'', ''NKE'', ''DKNG'', ''MGM'', ''WYNN'', ''XOM'', ''CVX'', ''OXY'',
     ''SLB'', ''FSLR'', ''ENPH'', ''PLUG'', ''BE'', ''GME'', ''AMC'', ''BBAI'',
     ''MVIS'', ''SPY'', ''QQQ'', ''IWM'', ''GLD'', ''SLV'', ''XLF'', ''XLE'',
     ''TQQQ'', ''SOXL'', ''SPXL'', ''LABU'', ''UVXY'', ''ARKK'', ''DIS'', ''BA'',
     ''GE'', ''CAT'', ''LMT'', ''RTX'', ''XYZ'']"

definition get_top_catalyst_tickers ::
  "(string \<Rightarrow> int option) \<Rightarrow> (string \<Rightarrow> gap option) \<Rightarrow> int \<Rightarrow> catalyst list" where
  "get_top_catalyst_tickers earnings_dates gap_data min_bonus =
     sort_key (\<lambda>c. - cat_total_bonus c)
       (filter (\<lambda>c. cat_total_bonus c \<ge> min_bonus)
          (scan earnings_dates gap_data (dedup [] UNIVERSE)))"

section \<open>signal engine: ranking\<close>

definition WATCHLIST :: "string list" where
  "WATCHLIST = [''TSLA'', ''NVDA'', ''COIN'', ''MSTR'', ''AMD'',
     ''TQQQ'', ''SOXL'', ''PLTR'', ''HOOD'', ''RBLX'',
     ''SPY'', ''QQQ'', ''SPXL'', ''LABU'', ''META'',
     ''AMZN'', ''GOOGL'', ''MSFT'', ''AAPL'', ''IWM'']"

text \<open>
  The body of the loop of \<open>get_top_signals\<close> for a signal with a direction: the insider
  and catalyst dictionaries are keyed by ticker.
\<close>

definition merge_bonus ::
  "(string \<rightharpoonup> insider_buy) \<Rightarrow> (string \<rightharpoonup> catalyst) \<Rightarrow> string \<Rightarrow> signal \<Rightarrow> signal" where
  "merge_bonus insider_scores catalyst_scores ticker sig =
     (let insider_bonus = (case insider_scores ticker of Some b \<Rightarrow> ib_score b | None \<Rightarrow> 0);
          insider_reasons = (case insider_scores ticker of Some b \<Rightarrow> ib_reasons b | None \<Rightarrow> []);
          sig1 = (if insider_scores ticker \<noteq> None \<and> sig_direction sig = None
                  then sig\<lparr>sig_direction := Some CALL\<rparr> else sig);
          cat_bonus = (case catalyst_scores ticker of Some c \<Rightarrow> cat_total_bonus c | None \<Rightarrow> 0);
          cat_rs = (case catalyst_scores ticker of Some c \<Rightarrow> cat_reasons c | None \<Rightarrow> []);
          cat_dir_bias = (case catalyst_scores ticker of
                            Some c \<Rightarrow> cat_direction_bias c | None \<Rightarrow> None);
          sig2 = (if cat_dir_bias \<noteq> None \<and> cat_bonus \<ge> 2
                  then sig1\<lparr>sig_direction := cat_dir_bias\<rparr> else sig1);
          total_bonus = insider_bonus + cat_bonus
      in sig2\<lparr> sig_score := py_round_nd (sig_score sig2 + of_int total_bonus) 1,
               sig_insider_bonus := Some insider_bonus,
               sig_catalyst_bonus := Some cat_bonus,
               sig_reasons := map Insider insider_reasons @ map Catalyst cat_rs
                              @ sig_reasons sig2 \<rparr>)"

text \<open>
  What \<open>get_top_signals\<close> reads from outside: the reference instrument for the regime,
  the day's aggregated insider purchases, which tickers have liquid options, the
  catalyst data, and the frames fetched per ticker.
\<close>

record scan_env =
  se_spy :: "(real \<times> real \<times> real) option"
  se_insider :: "insider_agg list option"
  se_liquid :: "string \<Rightarrow> bool"
  se_earnings :: "string \<Rightarrow> int option"
  se_gaps :: "string \<Rightarrow> gap option"
  se_fetch :: "string \<Rightarrow> (bar list \<times> bar list \<times> bar list) option"
  se_ind :: "bar list \<Rightarrow> indicators"
  se_atr :: "bar list \<Rightarrow> real"

definition dict_of :: "('a \<Rightarrow> string) \<Rightarrow> 'a list \<Rightarrow> (string \<rightharpoonup> 'a)" where
  "dict_of key xs = map_of (rev (map (\<lambda>x. (key x, x)) xs))"

definition scan_ticker ::
  "scan_env \<Rightarrow> string \<Rightarrow> (string \<rightharpoonup> insider_buy) \<Rightarrow> (string \<rightharpoonup> catalyst) \<Rightarrow> real
     \<Rightarrow> string \<Rightarrow> signal option" where
  "scan_ticker env regime insider_scores catalyst_scores min_score ticker =
     (case score_ticker (se_ind env) (se_atr env) ticker regime (se_fetch env ticker) of
        None \<Rightarrow> None
      | Some sig \<Rightarrow>
          if sig_direction sig \<noteq> None then
            (let sig' = merge_bonus insider_scores catalyst_scores ticker sig
             in if sig_score sig' \<ge> min_score then Some sig' else None)
          else None)"

definition get_top_signals :: "scan_env \<Rightarrow> real \<Rightarrow> signal list" where
  "get_top_signals env min_score =
     (let regime = market_regime (se_spy env);
          insider_buys_today =
            filter (\<lambda>b. se_liquid env (ib_ticker b)) (get_todays_insider_buys (se_insider env));
          insider_tickers = map ib_ticker insider_buys_today;
          insider_scores = dict_of ib_ticker insider_buys_today;
          catalyst_top =
            get_top_catalyst_tickers (se_earnings env) (se_gaps env) 2;
          catalyst_tickers = map cat_ticker catalyst_top;
          catalyst_scores = dict_of cat_ticker catalyst_top;
          combined_watchlist = dedup [] (WATCHLIST @ insider_tickers @ catalyst_tickers);
          signals = List.map_filter
                      (scan_ticker env regime insider_scores catalyst_scores min_score)
                      combined_watchlist
      in sort_key (\<lambda>x. (- sig_confluence x, - sig_score x)) signals)"

section \<open>agent: OptionsSelector\<close>

text \<open>
  One entry of the option chain. \<open>oq_option_type\<close> is the entry's type in lower case;
  \<open>oq_delta\<close> is \<open>None\<close> when the entry carries no usable greeks, which makes the
  loop skip it.
\<close>

record option_quote =
  oq_symbol :: string
  oq_option_type :: string
  oq_strike :: real
  oq_ask :: real
  oq_bid :: real
  oq_delta :: "real option"

datatype expirations_resp = ExpirationsError | NoExpirations | Expirations "int list"

datatype chain_resp = ChainError | NoChain | Chain "option_quote list"

text \<open>
  What \<open>select_contract\<close> reads from outside: the Eastern wall clock, today's date and
  the expiration dates (as day numbers), and the chain of the chosen expiry.
\<close>

record market_env =
  me_hour :: nat
  me_minute :: nat
  me_today :: int
  me_expirations :: expirations_resp
  me_chain :: "int \<Rightarrow> chain_resp"

record trade =
  tr_ticker :: string
  tr_direction :: direction
  tr_option_symbol :: string
  tr_strike :: real
  tr_expiry :: int
  tr_ask :: real
  tr_bid :: real
  tr_delta :: "real option"
  tr_contracts :: int
  tr_total_cost :: real
  tr_signal :: signal

definition get_nearest_expiry :: "market_env \<Rightarrow> int \<Rightarrow> int option" where
  "get_nearest_expiry env days_out = (case me_expirations env of
       ExpirationsError \<Rightarrow> None
     | NoExpirations \<Rightarrow> None
     | Expirations ds \<Rightarrow> find (\<lambda>exp. exp - me_today env \<ge> days_out) (sort ds))"

definition lower_name :: "direction \<Rightarrow> string" where
  "lower_name d = (case d of CALL \<Rightarrow> ''call'' | PUT \<Rightarrow> ''put'')"

text \<open>One round of the loop over \<open>side_options\<close>: the pair is (\<open>best\<close>, \<open>best_diff\<close>),
  with \<open>None\<close> for the initial infinite difference.\<close>

definition consider_option ::
  "config \<Rightarrow> real \<Rightarrow> (option_quote \<times> real) option \<Rightarrow> option_quote
     \<Rightarrow> (option_quote \<times> real) option" where
  "consider_option cfg target_strike best opt = (case oq_delta opt of
       None \<Rightarrow> best
     | Some raw_delta \<Rightarrow>
         let strike = oq_strike opt; ask = oq_ask opt; bid = oq_bid opt;
             delta = \<bar>raw_delta\<bar>;
             mid = (ask + bid) / 2;
             diff = \<bar>strike - target_strike\<bar>
         in if ask \<le> 0 \<or> ask > cfg_max_contract_price cfg then best
            else if delta < 2 / 10 \<or> delta > 7 / 10 then best
            else if mid > 0 \<and> (ask - bid) / mid > 2 / 10 then best
            else (case best of
                    None \<Rightarrow> Some (opt, diff)
                  | Some (b, best_diff) \<Rightarrow> if diff < best_diff then Some (opt, diff) else best))"

definition size_position :: "config \<Rightarrow> real \<Rightarrow> real \<Rightarrow> int \<times> real" where
  "size_position cfg capital ask_price =
     (let max_spend = min capital (case cfg_max_trade_size cfg of Some m \<Rightarrow> m | None \<Rightarrow> capital);
          contracts = max 1 (py_int (max_spend / (ask_price * 100)));
          total_cost = of_int contracts * ask_price * 100
      in if total_cost > capital
           then (let contracts' = max 1 (contracts - 1)
                 in (contracts', of_int contracts' * ask_price * 100))
         else (contracts, total_cost))"

definition select_contract :: "config \<Rightarrow> market_env \<Rightarrow> signal \<Rightarrow> real \<Rightarrow> trade option" where
  "select_contract cfg env sig capital =
     (if me_hour env = 15 \<and> me_minute env \<ge> 30 then None
      else
        let strike_offset = (if sig_direction sig = Some CALL then 102 / 100 else 98 / 100);
            target_strike = of_int (py_round (sig_price sig * strike_offset / 5)) * 5
        in case get_nearest_expiry env (cfg_min_days_to_expiry cfg) of
             None \<Rightarrow> None
           | Some expiry \<Rightarrow>
               (case me_chain env expiry of
                  ChainError \<Rightarrow> None
                | NoChain \<Rightarrow> None
                | Chain options \<Rightarrow>
                    if options = [] then None
                    else (case sig_direction sig of
                       None \<Rightarrow> None
                     | Some direction \<Rightarrow>
                         let side_options =
                               filter (\<lambda>q. oq_option_type q = lower_name direction) options
                         in if side_options = [] then None
                            else (case foldl (consider_option cfg target_strike) None side_options of
                                None \<Rightarrow> None
                              | Some (best, best_diff) \<Rightarrow>
                                  let ask_price = oq_ask best;
                                      (contracts, total_cost) = size_position cfg capital ask_price
                                  in Some \<lparr> tr_ticker = sig_ticker sig, tr_direction = direction,
                                            tr_option_symbol = oq_symbol best,
                                            tr_strike = oq_strike best, tr_expiry = expiry,
                                            tr_ask = ask_price, tr_bid = oq_bid best,
                                            tr_delta = oq_delta best, tr_contracts = contracts,
                                            tr_total_cost = total_cost, tr_signal = sig \<rparr>))))"

section \<open>agent: RiskManager\<close>

datatype balances_resp =
    BalancesError
  | BalancesNotDict
  | Balances (total_equity: "real option") (total_cash: "real option")
             (cash_available: "real option")

record position =
  pos_symbol :: string
  pos_quantity :: int
  pos_cost_basis :: real

datatype positions_resp = PositionsError | PositionsNotDict | PositionsNull | Positions "position list"

text \<open>What the broker and the clock answer during one call of the risk manager.\<close>

record broker_env =
  be_today :: string
  be_balances :: balances_resp
  be_positions :: positions_resp

record risk_state =
  start_of_day_capital :: "real option"
  last_reset_date :: "string option"
  killed_today :: bool

definition risk_init :: risk_state where
  "risk_init = \<lparr> start_of_day_capital = None, last_reset_date = None, killed_today = False \<rparr>"

datatype risk_reason =
    OK
  | KillSwitchActive
  | KillSwitchFired real real real
  | InsufficientCapital real
  | MaxPositionsReached nat
  | TradeCostAboveAvailable real real
  | TradeExceedsDynamicLimit real
  | BlockedCallInBear real
  | BlockedPutInBull real

definition get_account_balance :: "config \<Rightarrow> broker_env \<Rightarrow> real" where
  "get_account_balance cfg env =
     (if sandbox_on cfg then cfg_capital_limit cfg
      else case be_balances env of
             BalancesError \<Rightarrow> cfg_capital_limit cfg
           | BalancesNotDict \<Rightarrow> cfg_capital_limit cfg
           | Balances te tc ca \<Rightarrow>
               (case te of Some v \<Rightarrow> v
                | None \<Rightarrow> (case tc of Some v \<Rightarrow> v
                   | None \<Rightarrow> (case ca of Some v \<Rightarrow> v | None \<Rightarrow> cfg_capital_limit cfg))))"

definition dynamic_capital_limit :: "config \<Rightarrow> broker_env \<Rightarrow> real" where
  "dynamic_capital_limit cfg env =
     (let base = cfg_capital_limit cfg;
          balance = get_account_balance cfg env;
          gains = max 0 (balance - base)
      in base + gains * (50 / 100))"

definition dynamic_max_positions :: "config \<Rightarrow> broker_env \<Rightarrow> nat" where
  "dynamic_max_positions cfg env =
     (let balance = get_account_balance cfg env
      in if balance \<ge> 5000 then 5 else if balance \<ge> 2500 then 4 else 3)"

definition dynamic_daily_loss_limit :: "config \<Rightarrow> broker_env \<Rightarrow> real" where
  "dynamic_daily_loss_limit cfg env =
     py_round_nd (get_account_balance cfg env * (14 / 100)) 2"

definition get_open_position_count :: "broker_env \<Rightarrow> nat" where
  "get_open_position_count env = (case be_positions env of
       PositionsError \<Rightarrow> 0
     | PositionsNotDict \<Rightarrow> 0
     | PositionsNull \<Rightarrow> 0
     | Positions ps \<Rightarrow> length ps)"

definition reset_if_new_day :: "broker_env \<Rightarrow> risk_state \<Rightarrow> real \<Rightarrow> risk_state" where
  "reset_if_new_day env st current_capital =
     (if last_reset_date st \<noteq> Some (be_today env)
        then \<lparr> start_of_day_capital = Some current_capital,
               last_reset_date = Some (be_today env), killed_today = False \<rparr>
      else st)"

definition check_daily_loss_limit ::
  "config \<Rightarrow> broker_env \<Rightarrow> risk_state \<Rightarrow> real \<Rightarrow> risk_state \<times> bool \<times> risk_reason" where
  "check_daily_loss_limit cfg env st current_capital =
     (let balance = get_account_balance cfg env;
          portfolio_value =
            (if balance = cfg_capital_limit cfg \<and> sandbox_on cfg then current_capital
             else balance);
          st1 = reset_if_new_day env st portfolio_value
      in if killed_today st1 then (st1, True, KillSwitchActive)
         else (case start_of_day_capital st1 of
                 None \<Rightarrow> (st1, False, OK)
               | Some sod \<Rightarrow>
                   let daily_loss = sod - portfolio_value;
                       daily_loss_pct = (if sod > 0 then daily_loss / sod * 100 else 0)
                   in if daily_loss \<ge> dynamic_daily_loss_limit cfg env
                        then (st1\<lparr>killed_today := True\<rparr>, True,
                              KillSwitchFired daily_loss daily_loss_pct
                                (dynamic_daily_loss_limit cfg env))
                      else (st1, False, OK)))"

definition can_trade ::
  "config \<Rightarrow> broker_env \<Rightarrow> risk_state \<Rightarrow> trade \<Rightarrow> real \<Rightarrow> string
     \<Rightarrow> risk_state \<times> bool \<times> risk_reason" where
  "can_trade cfg env st tr available_capital regime =
     (case check_daily_loss_limit cfg env st available_capital of
        (st', killed, reason) \<Rightarrow>
          if killed then (st', False, reason)
          else if available_capital < cfg_min_capital_to_trade cfg
            then (st', False, InsufficientCapital available_capital)
          else if get_open_position_count env \<ge> dynamic_max_positions cfg env
            then (st', False, MaxPositionsReached (get_open_position_count env))
          else if tr_total_cost tr > available_capital
            then (st', False, TradeCostAboveAvailable (tr_total_cost tr) available_capital)
          else if tr_total_cost tr > dynamic_capital_limit cfg env
            then (st', False, TradeExceedsDynamicLimit (dynamic_capital_limit cfg env))
          else
            let direction = sig_direction (tr_signal tr);
                score = sig_score (tr_signal tr)
            in if regime = ''bear'' \<and> direction = Some CALL \<and> score < 16
                 then (st', False, BlockedCallInBear score)
               else if regime = ''bull'' \<and> direction = Some PUT \<and> score < 16
                 then (st', False, BlockedPutInBull score)
               else (st', True, OK))"

section \<open>agent: PositionMonitor\<close>

text \<open>
  \<open>entry_prices\<close> holds, per option symbol, the entry price under the symbol and the
  entry score under the symbol followed by \<open>_score\<close>.
\<close>

record monitor_state =
  entry_prices :: "string \<rightharpoonup> real"
  peak_prices :: "string \<rightharpoonup> real"
  recently_closed :: "string set"
  daily_realized_pnl :: real

datatype exit_action = Skipped | TrailingStop | TakeProfit | StopLoss | Hold

definition record_entry :: "monitor_state \<Rightarrow> string \<Rightarrow> real \<Rightarrow> real \<Rightarrow> monitor_state" where
  "record_entry st option_symbol entry_price score =
     st\<lparr> entry_prices := (entry_prices st)(option_symbol \<mapsto> entry_price,
                                           option_symbol @ ''_score'' \<mapsto> score),
         peak_prices := (peak_prices st)(option_symbol \<mapsto> entry_price) \<rparr>"

definition dynamic_tp_sl :: "real \<Rightarrow> real \<times> real" where
  "dynamic_tp_sl signal_score =
     (if signal_score \<ge> 16 then (45, 33)
      else if signal_score \<ge> 14 then (42, 33)
      else (38, 33))"

text \<open>The match of \<open>^([A-Z]+)\<close>: the leading upper-case letters, if there is one.\<close>

definition leading_ticker :: "string \<Rightarrow> string option" where
  "leading_ticker symbol =
     (let m = takeWhile (\<lambda>c. c \<in> set ''ABCDEFGHIJKLMNOPQRSTUVWXYZ'') symbol
      in if m = [] then None else Some m)"

text \<open>\<open>order_ok\<close> tells whether the broker accepted the closing order; when it raises,
  the function logs the failure and leaves the records as they are.\<close>

definition close_position ::
  "monitor_state \<Rightarrow> string \<Rightarrow> int \<Rightarrow> real \<Rightarrow> bool \<Rightarrow> monitor_state" where
  "close_position st option_symbol qty bid order_ok =
     (if \<not> order_ok then st
      else
        let entry_price = (case entry_prices st option_symbol of Some e \<Rightarrow> e | None \<Rightarrow> bid);
            pnl_per_contract = (bid - entry_price) * 100;
            total_pnl = pnl_per_contract * of_int qty
        in st\<lparr> daily_realized_pnl := daily_realized_pnl st + total_pnl,
               entry_prices := (entry_prices st)(option_symbol := None,
                                                 option_symbol @ ''_score'' := None),
               peak_prices := (peak_prices st)(option_symbol := None),
               recently_closed := (case leading_ticker option_symbol of
                                     Some t \<Rightarrow> insert t (recently_closed st)
                                   | None \<Rightarrow> recently_closed st) \<rparr>)"

text \<open>One round of the loop of \<open>check_and_exit\<close>, for a position and its current bid.\<close>

definition check_position ::
  "monitor_state \<Rightarrow> position \<Rightarrow> real \<Rightarrow> bool \<Rightarrow> monitor_state \<times> exit_action" where
  "check_position st pos current_bid order_ok =
     (let symbol = pos_symbol pos; qty = pos_quantity pos; cost_basis = pos_cost_basis pos;
          entry_price = (if qty > 0 then cost_basis / (of_int qty * 100) else 0)
      in if entry_price \<le> 0 \<or> current_bid \<le> 0 then (st, Skipped)
         else
           let pnl_pct = (current_bid - entry_price) / entry_price * 100;
               sig_score = (case entry_prices st (symbol @ ''_score'') of
                              Some v \<Rightarrow> v | None \<Rightarrow> 13);
               (tp_pct, sl_pct) = dynamic_tp_sl sig_score;
               peak0 = (case peak_prices st symbol of Some p \<Rightarrow> p | None \<Rightarrow> entry_price);
               peak = (if current_bid > peak0 then current_bid else peak0);
               st1 = st\<lparr> peak_prices := (peak_prices st)(symbol \<mapsto> peak) \<rparr>;
               peak_pnl_pct = (peak - entry_price) / entry_price * 100;
               trail_pct = (if peak_pnl_pct \<ge> 45 then 7
                            else if peak_pnl_pct \<ge> 30 then 10 else (15::real));
               pullback_from_peak = (peak - current_bid) / peak * 100
           in if peak_pnl_pct \<ge> 20 \<and> pullback_from_peak \<ge> trail_pct
                then (close_position st1 symbol qty current_bid order_ok, TrailingStop)
              else if pnl_pct \<ge> tp_pct
                then (close_position st1 symbol qty current_bid order_ok, TakeProfit)
              else if pnl_pct \<le> - sl_pct
                then (close_position st1 symbol qty current_bid order_ok, StopLoss)
              else (st1, Hold))"

text \<open>
  The loop: \<open>quote\<close> gives the current bid of a symbol, \<open>None\<close> when the quote request
  raises, which ends the whole pass.
\<close>

fun check_positions ::
  "(string \<Rightarrow> real option) \<Rightarrow> (string \<Rightarrow> bool) \<Rightarrow> monitor_state \<Rightarrow> position list
     \<Rightarrow> monitor_state \<times> (string \<times> exit_action) list" where
  "check_positions quote order_ok st [] = (st, [])"
| "check_positions quote order_ok st (pos # rest) =
     (case quote (pos_symbol pos) of
        None \<Rightarrow> (st, [])
      | Some bid \<Rightarrow>
          (case check_position st pos bid (order_ok (pos_symbol pos)) of
             (st', a) \<Rightarrow>
               (case check_positions quote order_ok st' rest of
                  (st'', acts) \<Rightarrow> (st'', (pos_symbol pos, a) # acts))))"

definition check_and_exit ::
  "(string \<Rightarrow> real option) \<Rightarrow> (string \<Rightarrow> bool) \<Rightarrow> monitor_state \<Rightarrow> positions_resp
     \<Rightarrow> monitor_state \<times> (string \<times> exit_action) list" where
  "check_and_exit quote order_ok st resp = (case resp of
       PositionsError \<Rightarrow> (st, [])
     | PositionsNotDict \<Rightarrow> (st, [])
     | PositionsNull \<Rightarrow> (st, [])
     | Positions ps \<Rightarrow> check_positions quote order_ok st ps)"

section \<open>Sequences of risk checks and sample data\<close>

text \<open>
  A day in the life of the risk manager: the checks of a list of calls, each with what the
  broker and the clock answer at that call and the capital passed in, threaded through
  the state.
\<close>

fun run_checks ::
  "config \<Rightarrow> risk_state \<Rightarrow> (broker_env \<times> real) list \<Rightarrow> (bool \<times> risk_reason) list" where
  "run_checks cfg st [] = []"
| "run_checks cfg st ((env, cap) # rest) =
     (case check_daily_loss_limit cfg env st cap of
        (st', res) \<Rightarrow> res # run_checks cfg st' rest)"

text \<open>The configuration of \<open>config.py\<close> switched to a live account.\<close>

definition LIVE :: config where
  "LIVE = CONFIG\<lparr> cfg_sandbox := Some False \<rparr>"

definition sample_signal :: "direction \<Rightarrow> real \<Rightarrow> signal" where
  "sample_signal d sc =
     \<lparr> sig_ticker = ''TSLA'', sig_direction = Some d, sig_score = sc, sig_price = 250,
       sig_confluence = 4, sig_regime_aligned = False, sig_vol_pct = 2,
       sig_timeframe_scores = (13, 13, 13), sig_reasons = [],
       sig_insider_bonus = Some 0, sig_catalyst_bonus = Some 0 \<rparr>"

definition sample_chain :: "option_quote list" where
  "sample_chain =
     [\<lparr> oq_symbol = ''TSLA260105P00245000'', oq_option_type = ''put'', oq_strike = 245,
        oq_ask = 6 / 10, oq_bid = 55 / 100, oq_delta = Some (- (35 / 100)) \<rparr>,
      \<lparr> oq_symbol = ''TSLA260105C00255000'', oq_option_type = ''call'', oq_strike = 255,
        oq_ask = 1 / 2, oq_bid = 45 / 100, oq_delta = Some (4 / 10) \<rparr>,
      \<lparr> oq_symbol = ''TSLA260105C00260000'', oq_option_type = ''call'', oq_strike = 260,
        oq_ask = 3 / 10, oq_bid = 28 / 100, oq_delta = Some (3 / 10) \<rparr>]"

definition sample_market :: market_env where
  "sample_market =
     \<lparr> me_hour = 10, me_minute = 15, me_today = 0, me_expirations = Expirations [7, 0],
       me_chain = (\<lambda>expiry. Chain sample_chain) \<rparr>"

definition sample_trade :: "real \<Rightarrow> signal \<Rightarrow> trade" where
  "sample_trade cost sig =
     \<lparr> tr_ticker = ''TSLA'', tr_direction = CALL, tr_option_symbol = ''TSLA260105C00255000'',
       tr_strike = 255, tr_expiry = 0, tr_ask = 1 / 2, tr_bid = 45 / 100,
       tr_delta = Some (4 / 10), tr_contracts = 2, tr_total_cost = cost, tr_signal = sig \<rparr>"

definition sample_broker :: "real \<Rightarrow> broker_env" where
  "sample_broker equity =
     \<lparr> be_today = ''2026-01-05'', be_balances = Balances (Some equity) None None,
       be_positions = Positions [] \<rparr>"



definition sample_tf :: "direction option \<Rightarrow> tf_score" where
  "sample_tf d = \<lparr> tf_points = 5, tf_direction = d, tf_votes = Some (2, 0), tf_reasons = [] \<rparr>"

definition sample_indicators :: indicators where
  "sample_indicators =
     \<lparr> ind_rsi = 75, ind_rsi_prev = 72, ind_hist_now = 3 / 10, ind_hist_prev = 2 / 10,
       ind_hist_prev2 = 1 / 10, ind_in_squeeze = False, ind_breakout = True,
       ind_sq_direction = CALL, ind_sq_strength = 1, ind_avg_vol = 1000, ind_cur_vol = 2500,
       ind_obv_trend = True, ind_vwap = 240, ind_price = 250 \<rparr>"

definition sample_ind :: "bar list \<Rightarrow> indicators" where
  "sample_ind df = sample_indicators"

definition sample_frame :: "bar list" where
  "sample_frame =
     replicate 30 \<lparr> bar_open = 249, bar_high = 252, bar_low = 247, bar_close = 250,
                     bar_volume = 1000 \<rparr>"

text \<open>
  A scan in which only TSLA has price data: strongly bullish on every timeframe, with an
  insider purchase of 600000 by a CEO and earnings due tomorrow.
\<close>

definition sample_scan :: scan_env where
  "sample_scan =
     \<lparr> se_spy = None,
       se_insider = Some [\<lparr> agg_ticker = ''TSLA'', agg_total_buy_value = 600000,
                            agg_filing_count = 1, agg_roles = [''CEO''] \<rparr>],
       se_liquid = (\<lambda>t. True),
       se_earnings = (\<lambda>t. if t = ''TSLA'' then Some 1 else None),
       se_gaps = (\<lambda>t. None),
       se_fetch = (\<lambda>t. if t = ''TSLA'' then Some (sample_frame, sample_frame, sample_frame)
                         else None),
       se_ind = sample_ind,
       se_atr = (\<lambda>df. 5) \<rparr>"

definition sample_technical :: signal where
  "sample_technical =
     blend_timeframes ''TSLA'' ''neutral'' (score_timeframe sample_ind sample_frame ''1H'')
       (score_timeframe sample_ind sample_frame ''15M'')
       (score_timeframe sample_ind sample_frame ''5M'') 5 250"

definition sample_insider_scores :: "string \<rightharpoonup> insider_buy" where
  "sample_insider_scores =
     dict_of ib_ticker
       (filter (\<lambda>b. se_liquid sample_scan (ib_ticker b))
          (get_todays_insider_buys (se_insider sample_scan)))"

definition sample_catalyst_scores :: "string \<rightharpoonup> catalyst" where
  "sample_catalyst_scores =
     dict_of cat_ticker
       (get_top_catalyst_tickers (se_earnings sample_scan) (se_gaps sample_scan) 2)"

section \<open>Evaluation of the sample data\<close>

lemma select_contract_sample_30:
  "select_contract CONFIG sample_market (sample_signal CALL 17) 30
     = Some (sample_trade 50 (sample_signal CALL 17) \<lparr> tr_contracts := 1 \<rparr>)"
  by (simp add: select_contract_def CONFIG_def sample_market_def sample_signal_def
        sample_chain_def sample_trade_def get_nearest_expiry_def lower_name_def
        consider_option_def size_position_def py_int_def py_round_def Let_def)

lemma select_contract_sample_125:
  "select_contract CONFIG sample_market (sample_signal CALL 17) 125
     = Some (sample_trade 100 (sample_signal CALL 17))"
  by (simp add: select_contract_def CONFIG_def sample_market_def sample_signal_def
        sample_chain_def sample_trade_def get_nearest_expiry_def lower_name_def
        consider_option_def size_position_def py_int_def py_round_def Let_def)

lemma check_sample_sandbox:
  "check_daily_loss_limit CONFIG (sample_broker 1000) risk_init 125
     = (\<lparr> start_of_day_capital = Some 125, last_reset_date = Some ''2026-01-05'',
          killed_today = False \<rparr>, False, OK)"
  by (simp add: check_daily_loss_limit_def CONFIG_def sample_broker_def risk_init_def
        get_account_balance_def sandbox_on_def reset_if_new_day_def
        dynamic_daily_loss_limit_def py_round_nd_def py_round_def Let_def)

lemma check_sample_fires:
  "check_daily_loss_limit LIVE (sample_broker (85999 / 100))
       \<lparr> start_of_day_capital = Some 1000, last_reset_date = Some ''2026-01-05'',
         killed_today = False \<rparr> 500
     = (\<lparr> start_of_day_capital = Some 1000, last_reset_date = Some ''2026-01-05'',
          killed_today = True \<rparr>, True,
        KillSwitchFired (14001 / 100) (14001 / 1000) (1204 / 10))"
  by (simp add: check_daily_loss_limit_def LIVE_def CONFIG_def sample_broker_def
        get_account_balance_def sandbox_on_def reset_if_new_day_def
        dynamic_daily_loss_limit_def py_round_nd_def py_round_def Let_def)

section \<open>Position sizing\<close>

lemma py_int_le: "1 \<le> py_int x \<Longrightarrow> of_int (py_int x) \<le> x"
  by (auto simp: py_int_def split: if_splits)

lemma py_int_small: "x < 1 \<Longrightarrow> py_int x \<le> 0"
  by (auto simp: py_int_def split: if_splits)

lemma size_position_props:
  assumes ask: "0 < ask" and sz: "size_position cfg capital ask = (c, t)"
  shows "1 \<le> c" and "t = of_int c * ask * 100"
    and "ask * 100 \<le> capital \<Longrightarrow> t \<le> capital"
    and "capital < ask * 100 \<Longrightarrow> c = 1"
proof -
  define max_spend where
    "max_spend = min capital (case cfg_max_trade_size cfg of Some m \<Rightarrow> m | None \<Rightarrow> capital)"
  define k where "k = py_int (max_spend / (ask * 100))"
  have ms: "max_spend \<le> capital" by (simp add: max_spend_def)
  have sz': "(c, t) = (if of_int (max 1 k) * ask * 100 > capital
                then (max 1 (max 1 k - 1), of_int (max 1 (max 1 k - 1)) * ask * 100)
                else (max 1 k, of_int (max 1 k) * ask * 100))"
    using sz unfolding size_position_def Let_def max_spend_def [symmetric] k_def [symmetric]
    by simp
  show "1 \<le> c" using sz' by (auto split: if_splits)
  show "t = of_int c * ask * 100" using sz' by (auto split: if_splits)
  {
    assume aff: "ask * 100 \<le> capital"
    have "of_int (max 1 k) * ask * 100 \<le> capital"
    proof (cases "1 \<le> k")
      case True
      then have "of_int k \<le> max_spend / (ask * 100)" unfolding k_def by (rule py_int_le)
      then have "of_int k * (ask * 100) \<le> max_spend" using ask by (simp add: pos_le_divide_eq)
      with ms True show ?thesis by (simp add: max_def mult.assoc)
    next
      case False
      with aff show ?thesis by (simp add: max_def)
    qed
    with sz' show "t \<le> capital" by simp
  }
  {
    assume un: "capital < ask * 100"
    with ms have "max_spend / (ask * 100) < 1" using ask by (simp add: pos_divide_less_eq)
    then have "k \<le> 0" unfolding k_def by (rule py_int_small)
    then have "max 1 k = 1" by simp
    with sz' show "c = 1" by (simp split: if_splits)
  }
qed

lemma consider_option_inv:
  "consider_option cfg ts acc q = Some (b, d)
     \<Longrightarrow> acc = Some (b, d) \<or> (b = q \<and> 0 < oq_ask q \<and> oq_ask q \<le> cfg_max_contract_price cfg)"
  by (auto simp: consider_option_def Let_def split: option.splits if_splits prod.splits)

lemma foldl_consider_inv:
  "foldl (consider_option cfg ts) acc qs = Some (b, d)
     \<Longrightarrow> acc = Some (b, d)
         \<or> (b \<in> set qs \<and> 0 < oq_ask b \<and> oq_ask b \<le> cfg_max_contract_price cfg)"
proof (induction qs arbitrary: acc)
  case Nil
  then show ?case by simp
next
  case (Cons q qs)
  from Cons.prems
  have "foldl (consider_option cfg ts) (consider_option cfg ts acc q) qs = Some (b, d)"
    by simp
  from Cons.IH [OF this] show ?case
    using consider_option_inv [of cfg ts acc q b d] by auto
qed

lemma select_contract_Some:
  assumes "select_contract cfg env sig capital = Some tr"
  shows "0 < tr_ask tr
       \<and> size_position cfg capital (tr_ask tr) = (tr_contracts tr, tr_total_cost tr)"
proof -
  from assms obtain options direction best best_diff where
      b: "foldl (consider_option cfg
               (of_int (py_round (sig_price sig *
                  (if sig_direction sig = Some CALL then 102 / 100 else 98 / 100) / 5)) * 5))
             None (filter (\<lambda>q. oq_option_type q = lower_name direction) options)
           = Some (best, best_diff)"
      and tr: "tr_ask tr = oq_ask best"
        "(tr_contracts tr, tr_total_cost tr) = size_position cfg capital (oq_ask best)"
    unfolding select_contract_def Let_def
    by (auto split: if_splits option.splits chain_resp.splits prod.splits)
  from foldl_consider_inv [OF b] have "0 < oq_ask best" by simp
  with tr show ?thesis by simp
qed

lemma select_contract_None_capital:
  "(select_contract cfg env sig capital = None) = (select_contract cfg env sig capital' = None)"
  unfolding select_contract_def Let_def
  by (auto split: if_splits option.splits chain_resp.splits prod.splits)

text \<open>
  Claim C1, as amended. Whenever \<open>select_contract\<close> returns a candidate of which a single
  contract is affordable (ask price times 100 is at most the capital argument), the
  candidate's total cost does not exceed the capital argument.
\<close>

theorem select_contract_cost_within_capital:
  assumes "select_contract cfg env sig capital = Some tr"
    and "tr_ask tr * 100 \<le> capital"
  shows "tr_total_cost tr \<le> capital"
proof -
  from select_contract_Some [OF assms(1)] have ask: "0 < tr_ask tr"
    and sz: "size_position cfg capital (tr_ask tr) = (tr_contracts tr, tr_total_cost tr)"
    by simp_all
  from size_position_props(3) [OF ask sz assms(2)] show ?thesis .
qed

text \<open>
  The amended claim at the sample chain: with 125 of capital the selector takes two
  contracts at 0.50 for a total of 100.
\<close>

theorem select_contract_cost_within_capital_witness:
  "select_contract CONFIG sample_market (sample_signal CALL 17) 125
     = Some (sample_trade 100 (sample_signal CALL 17))
   \<and> tr_ask (sample_trade 100 (sample_signal CALL 17)) * 100 \<le> 125
   \<and> tr_total_cost (sample_trade 100 (sample_signal CALL 17)) \<le> 125"
  using select_contract_cost_within_capital
          [of CONFIG sample_market "sample_signal CALL 17" 125
              "sample_trade 100 (sample_signal CALL 17)"]
        select_contract_sample_125
  by (simp add: sample_trade_def)

text \<open>
  Claim C1 as stated fails: with 30 of capital the selector still returns one contract
  at 0.50, whose cost of 50 exceeds the capital argument.
\<close>

theorem select_contract_cost_counterexample:
  "map_option tr_total_cost
       (select_contract CONFIG sample_market (sample_signal CALL 17) 30) = Some 50
   \<and> \<not> (50 \<le> (30::real))"
  by (simp add: select_contract_sample_30 sample_trade_def)

text \<open>
  Claim C9. A returned candidate has at least one contract and costs contracts times ask
  times 100; when one contract already costs more than the capital argument the
  candidate has exactly one contract (and costs more than the capital); and whether a
  candidate is returned at all does not depend on the capital argument.
\<close>

theorem select_contract_sizing:
  assumes "select_contract cfg env sig capital = Some tr"
  shows "1 \<le> tr_contracts tr
       \<and> tr_total_cost tr = of_int (tr_contracts tr) * tr_ask tr * 100
       \<and> (capital < tr_ask tr * 100 \<longrightarrow> tr_contracts tr = 1 \<and> capital < tr_total_cost tr)
       \<and> select_contract cfg env sig capital' \<noteq> None"
proof -
  from select_contract_Some [OF assms] have ask: "0 < tr_ask tr"
    and sz: "size_position cfg capital (tr_ask tr) = (tr_contracts tr, tr_total_cost tr)"
    by simp_all
  note p = size_position_props [OF ask sz]
  have "select_contract cfg env sig capital' \<noteq> None"
    using assms select_contract_None_capital [of cfg env sig capital capital'] by simp
  with p show ?thesis by auto
qed

text \<open>Claim C9 at the sample chain with 30 of capital: one contract, cost 50.\<close>

theorem select_contract_sizing_witness:
  "select_contract CONFIG sample_market (sample_signal CALL 17) 30
     = Some (sample_trade 50 (sample_signal CALL 17) \<lparr> tr_contracts := 1 \<rparr>)
   \<and> 30 < tr_ask (sample_trade 50 (sample_signal CALL 17) \<lparr> tr_contracts := 1 \<rparr>) * 100
   \<and> tr_contracts (sample_trade 50 (sample_signal CALL 17) \<lparr> tr_contracts := 1 \<rparr>) = 1
   \<and> select_contract CONFIG sample_market (sample_signal CALL 17) 1 \<noteq> None"
  using select_contract_sizing
          [of CONFIG sample_market "sample_signal CALL 17" 30
              "sample_trade 50 (sample_signal CALL 17) \<lparr> tr_contracts := 1 \<rparr>" 1]
        select_contract_sample_30
  by (simp add: sample_trade_def)

section \<open>Dynamic limits\<close>

text \<open>
  Claim C10. The dynamic capital limit is the base capital plus half of the equity above
  the base, so it is never below the base and never decreases as equity grows; the
  dynamic number of positions is the step function 3, 4 (from 2500), 5 (from 5000) of
  equity and never decreases as equity grows either.
\<close>

theorem dynamic_limits_monotone:
  "dynamic_capital_limit cfg env
     = cfg_capital_limit cfg
       + (1 / 2) * max 0 (get_account_balance cfg env - cfg_capital_limit cfg)
   \<and> cfg_capital_limit cfg \<le> dynamic_capital_limit cfg env
   \<and> dynamic_max_positions cfg env
       = (if get_account_balance cfg env < 2500 then 3
          else if get_account_balance cfg env < 5000 then 4 else 5)
   \<and> (get_account_balance cfg env \<le> get_account_balance cfg env'
        \<longrightarrow> dynamic_capital_limit cfg env \<le> dynamic_capital_limit cfg env'
          \<and> dynamic_max_positions cfg env \<le> dynamic_max_positions cfg env')"
  by (auto simp: dynamic_capital_limit_def dynamic_max_positions_def Let_def max_def)

text \<open>Claim C10 on a live account whose equity grows from 3000 to 6000.\<close>

theorem dynamic_limits_monotone_witness:
  "get_account_balance LIVE (sample_broker 3000) \<le> get_account_balance LIVE (sample_broker 6000)
   \<and> dynamic_capital_limit LIVE (sample_broker 3000) = 1750
   \<and> dynamic_capital_limit LIVE (sample_broker 6000) = 3250
   \<and> dynamic_max_positions LIVE (sample_broker 3000) = 4
   \<and> dynamic_max_positions LIVE (sample_broker 6000) = 5"
  using dynamic_limits_monotone [of LIVE "sample_broker 3000" "sample_broker 6000"]
  by (simp add: dynamic_capital_limit_def dynamic_max_positions_def get_account_balance_def
        LIVE_def CONFIG_def sample_broker_def sandbox_on_def Let_def)

section \<open>Confluence and short series\<close>

lemma confluence_blend:
  "sig_confluence (blend_timeframes t r s1 s2 s3 a p) =
     confluence_of (count_list (List.map_filter tf_direction [s1, s2, s3]) CALL)
                   (count_list (List.map_filter tf_direction [s1, s2, s3]) PUT)"
  by (simp add: blend_timeframes_def Let_def)

lemma direction_cases: "x = None \<or> x = Some CALL \<or> x = Some PUT"
  by (metis direction.exhaust option.exhaust)

lemma score_ticker_blend:
  "score_ticker ind atr t r f = Some sig \<Longrightarrow>
     \<exists>df_1h df_15m df_5m. f = Some (df_1h, df_15m, df_5m) \<and>
       sig = blend_timeframes t r (score_timeframe ind df_1h ''1H'')
               (score_timeframe ind df_15m ''15M'') (score_timeframe ind df_5m ''5M'')
               (atr df_1h) (bar_close (last df_1h))"
  by (auto simp: score_ticker_def split: option.splits if_splits)

text \<open>
  Claim C5. For the three timeframe results that \<open>score_ticker\<close> blends, the confluence
  score is 4 exactly when the three directions are the same and not NONE, 2 exactly when
  exactly two of them agree on a direction that is not NONE, and 0 in every other case.
\<close>

theorem confluence_exact:
  fixes s1 s2 s3 :: tf_score
  defines "d1 \<equiv> tf_direction s1" and "d2 \<equiv> tf_direction s2" and "d3 \<equiv> tf_direction s3"
  shows "(sig_confluence (blend_timeframes t r s1 s2 s3 a p) = 4
            \<longleftrightarrow> d1 = d2 \<and> d2 = d3 \<and> d1 \<noteq> None)
       \<and> (sig_confluence (blend_timeframes t r s1 s2 s3 a p) = 2
            \<longleftrightarrow> (d1 = d2 \<and> d1 \<noteq> None \<and> d3 \<noteq> d1)
              \<or> (d1 = d3 \<and> d1 \<noteq> None \<and> d2 \<noteq> d1)
              \<or> (d2 = d3 \<and> d2 \<noteq> None \<and> d1 \<noteq> d2))
       \<and> sig_confluence (blend_timeframes t r s1 s2 s3 a p) \<in> {0, 2, 4}"
  using direction_cases [of d1] direction_cases [of d2] direction_cases [of d3]
  unfolding confluence_blend d1_def d2_def d3_def
  by (elim disjE) (simp_all add: confluence_of_def)

text \<open>Claim C5 at three sample triples: all CALL, two PUT with a CALL, and two NONE.\<close>

theorem confluence_exact_witness:
  "sig_confluence (blend_timeframes ''TSLA'' ''bull'' (sample_tf (Some CALL))
      (sample_tf (Some CALL)) (sample_tf (Some CALL)) 5 250) = 4
   \<and> sig_confluence (blend_timeframes ''TSLA'' ''bull'' (sample_tf (Some PUT))
      (sample_tf (Some CALL)) (sample_tf (Some PUT)) 5 250) = 2
   \<and> sig_confluence (blend_timeframes ''TSLA'' ''bull'' (sample_tf None)
      (sample_tf (Some CALL)) (sample_tf None) 5 250) \<noteq> 2
   \<and> sig_confluence (blend_timeframes ''TSLA'' ''bull'' (sample_tf None)
      (sample_tf (Some CALL)) (sample_tf None) 5 250) \<noteq> 4"
  using confluence_exact [of "''TSLA''" "''bull''" "sample_tf (Some CALL)"
          "sample_tf (Some CALL)" "sample_tf (Some CALL)" 5 250]
        confluence_exact [of "''TSLA''" "''bull''" "sample_tf (Some PUT)"
          "sample_tf (Some CALL)" "sample_tf (Some PUT)" 5 250]
        confluence_exact [of "''TSLA''" "''bull''" "sample_tf None"
          "sample_tf (Some CALL)" "sample_tf None" 5 250]
  by (simp add: sample_tf_def)

text \<open>
  Claim C6. A series of fewer than 30 bars, the empty one included, is scored 0 with no
  direction and no reasons, whatever the indicators would be; the function is total
  on every input, so nothing is raised.
\<close>

theorem score_timeframe_short:
  "length df < 30 \<Longrightarrow>
     score_timeframe ind df label
       = \<lparr> tf_points = 0, tf_direction = None, tf_votes = None, tf_reasons = [] \<rparr>"
  by (simp add: score_timeframe_def)

text \<open>Claim C6 at the empty series.\<close>

theorem score_timeframe_short_witness:
  "length ([] :: bar list) < 30
   \<and> score_timeframe sample_ind [] ''1H''
       = \<lparr> tf_points = 0, tf_direction = None, tf_votes = None, tf_reasons = [] \<rparr>"
  using score_timeframe_short [of "[]" sample_ind "''1H''"] by simp

section \<open>Kill switch\<close>

lemma reset_same_day:
  "last_reset_date st = Some (be_today env) \<Longrightarrow> reset_if_new_day env st pv = st"
  by (simp add: reset_if_new_day_def)

lemma check_when_killed:
  "killed_today st \<Longrightarrow> last_reset_date st = Some (be_today env)
     \<Longrightarrow> check_daily_loss_limit cfg env st cap = (st, True, KillSwitchActive)"
  by (simp add: check_daily_loss_limit_def Let_def reset_same_day)

lemma check_fires_latches:
  "check_daily_loss_limit cfg env st cap = (st', True, r)
     \<Longrightarrow> killed_today st' \<and> last_reset_date st' = Some (be_today env)"
  by (auto simp: check_daily_loss_limit_def Let_def reset_if_new_day_def
           split: if_splits option.splits)

lemma run_checks_killed:
  "killed_today st \<Longrightarrow> last_reset_date st = Some day
     \<Longrightarrow> \<forall>c \<in> set calls. be_today (fst c) = day
     \<Longrightarrow> \<forall>res \<in> set (run_checks cfg st calls). res = (True, KillSwitchActive)"
proof (induction calls)
  case Nil
  then show ?case by simp
next
  case (Cons c calls)
  obtain env cap where c: "c = (env, cap)" by (cases c)
  from Cons.prems c have day: "be_today env = day" by simp
  with Cons.prems have "check_daily_loss_limit cfg env st cap = (st, True, KillSwitchActive)"
    by (simp add: check_when_killed)
  with Cons c show ?case by simp
qed

text \<open>
  Claim C2. A check that reports the kill switch leaves the flag set for the day of the
  check. While the flag is set and the day is the same, \<open>check_daily_loss_limit\<close> and
  \<open>can_trade\<close> deny with the kill-switch reason whatever the equity and the capital are
  and leave the state as it is, and so does every check of any sequence of calls on that
  day. On the same day the reset does nothing; on a check that observes another day the
  reset clears the flag and takes a new start-of-day snapshot, and that check does not
  answer with the latched kill-switch reason.
\<close>

theorem kill_switch_latched:
  "(check_daily_loss_limit cfg env st cap = (st', True, r)
      \<longrightarrow> killed_today st' \<and> last_reset_date st' = Some (be_today env))
   \<and> (killed_today st \<and> last_reset_date st = Some (be_today env)
      \<longrightarrow> check_daily_loss_limit cfg env st cap = (st, True, KillSwitchActive)
        \<and> can_trade cfg env st tr cap regime = (st, False, KillSwitchActive))
   \<and> (killed_today st \<and> last_reset_date st = Some (be_today env)
        \<and> (\<forall>c \<in> set calls. be_today (fst c) = be_today env)
      \<longrightarrow> (\<forall>res \<in> set (run_checks cfg st calls). res = (True, KillSwitchActive)))
   \<and> (last_reset_date st = Some (be_today env) \<longrightarrow> reset_if_new_day env st pv = st)
   \<and> (last_reset_date st \<noteq> Some (be_today env)
      \<longrightarrow> reset_if_new_day env st pv
            = \<lparr> start_of_day_capital = Some pv, last_reset_date = Some (be_today env),
                killed_today = False \<rparr>
        \<and> snd (snd (check_daily_loss_limit cfg env st cap)) \<noteq> KillSwitchActive)"
proof (intro conjI impI)
  assume "check_daily_loss_limit cfg env st cap = (st', True, r)"
  then show "killed_today st'" "last_reset_date st' = Some (be_today env)"
    using check_fires_latches by blast+
next
  assume a: "killed_today st \<and> last_reset_date st = Some (be_today env)"
  then show k: "check_daily_loss_limit cfg env st cap = (st, True, KillSwitchActive)"
    by (simp add: check_when_killed)
  then show "can_trade cfg env st tr cap regime = (st, False, KillSwitchActive)"
    by (simp add: can_trade_def)
next
  assume "killed_today st \<and> last_reset_date st = Some (be_today env)
        \<and> (\<forall>c \<in> set calls. be_today (fst c) = be_today env)"
  then show "\<forall>res \<in> set (run_checks cfg st calls). res = (True, KillSwitchActive)"
    using run_checks_killed by blast
next
  assume "last_reset_date st = Some (be_today env)"
  then show "reset_if_new_day env st pv = st" by (rule reset_same_day)
next
  assume n: "last_reset_date st \<noteq> Some (be_today env)"
  then show "reset_if_new_day env st pv
            = \<lparr> start_of_day_capital = Some pv, last_reset_date = Some (be_today env),
                killed_today = False \<rparr>"
    by (simp add: reset_if_new_day_def)
  from n show "snd (snd (check_daily_loss_limit cfg env st cap)) \<noteq> KillSwitchActive"
    by (simp add: check_daily_loss_limit_def Let_def reset_if_new_day_def)
qed

text \<open>
  Claim C2 on a live account that started the day at 1000: at an equity of 859.99 the
  switch fires; later that day, with the equity back at 2000, the check and
  \<open>can_trade\<close> still deny with the kill-switch reason; a first check (no day seen yet)
  takes the snapshot and clears the flag.
\<close>

theorem kill_switch_latched_witness:
  "check_daily_loss_limit LIVE (sample_broker (85999 / 100))
       \<lparr> start_of_day_capital = Some 1000, last_reset_date = Some ''2026-01-05'',
         killed_today = False \<rparr> 500
     = (\<lparr> start_of_day_capital = Some 1000, last_reset_date = Some ''2026-01-05'',
          killed_today = True \<rparr>, True,
        KillSwitchFired (14001 / 100) (14001 / 1000) (1204 / 10))
   \<and> check_daily_loss_limit LIVE (sample_broker 2000)
       \<lparr> start_of_day_capital = Some 1000, last_reset_date = Some ''2026-01-05'',
         killed_today = True \<rparr> 500
     = (\<lparr> start_of_day_capital = Some 1000, last_reset_date = Some ''2026-01-05'',
          killed_today = True \<rparr>, True, KillSwitchActive)
   \<and> can_trade LIVE (sample_broker 2000)
       \<lparr> start_of_day_capital = Some 1000, last_reset_date = Some ''2026-01-05'',
         killed_today = True \<rparr> (sample_trade 100 (sample_signal CALL 17)) 500 ''neutral''
     = (\<lparr> start_of_day_capital = Some 1000, last_reset_date = Some ''2026-01-05'',
          killed_today = True \<rparr>, False, KillSwitchActive)
   \<and> run_checks LIVE
       \<lparr> start_of_day_capital = Some 1000, last_reset_date = Some ''2026-01-05'',
         killed_today = True \<rparr> [(sample_broker 2000, 500), (sample_broker 3000, 800)]
     = [(True, KillSwitchActive), (True, KillSwitchActive)]
   \<and> last_reset_date risk_init \<noteq> Some (be_today (sample_broker 2000))
   \<and> reset_if_new_day (sample_broker 2000) risk_init 2000
     = \<lparr> start_of_day_capital = Some 2000, last_reset_date = Some ''2026-01-05'',
         killed_today = False \<rparr>"
proof -
  let ?killed = "\<lparr> start_of_day_capital = Some 1000, last_reset_date = Some ''2026-01-05'',
                   killed_today = True \<rparr>"
  have day: "killed_today ?killed \<and> last_reset_date ?killed = Some (be_today (sample_broker 2000))"
    "be_today (sample_broker 3000) = be_today (sample_broker 2000)"
    "last_reset_date risk_init \<noteq> Some (be_today (sample_broker 2000))"
    by (simp_all add: sample_broker_def risk_init_def)
  have calls: "\<forall>c \<in> set [(sample_broker 2000, 500 :: real), (sample_broker 3000, 800)].
                 be_today (fst c) = be_today (sample_broker 2000)"
    by (simp add: sample_broker_def)
  note k = kill_switch_latched [of LIVE "sample_broker 2000" ?killed 500 ?killed
             KillSwitchActive "sample_trade 100 (sample_signal CALL 17)" "''neutral''"
             "[(sample_broker 2000, 500), (sample_broker 3000, 800)]" 2000]
  note n = kill_switch_latched [of LIVE "sample_broker 2000" risk_init 500 risk_init
             KillSwitchActive "sample_trade 100 (sample_signal CALL 17)" "''neutral''"
             "[]" 2000]
  from k day have c1: "check_daily_loss_limit LIVE (sample_broker 2000) ?killed 500
                         = (?killed, True, KillSwitchActive)"
    and c2: "can_trade LIVE (sample_broker 2000) ?killed
               (sample_trade 100 (sample_signal CALL 17)) 500 ''neutral''
             = (?killed, False, KillSwitchActive)"
    by blast+
  from k day calls have all: "\<forall>res \<in> set (run_checks LIVE ?killed
            [(sample_broker 2000, 500), (sample_broker 3000, 800)]).
          res = (True, KillSwitchActive)"
    by blast
  have len: "length (run_checks cfg st cs) = length cs" for cfg st cs
    by (induction cs arbitrary: st) (auto split: prod.splits)
  have c3: "run_checks LIVE ?killed [(sample_broker 2000, 500), (sample_broker 3000, 800)]
              = [(True, KillSwitchActive), (True, KillSwitchActive)]"
  proof -
    obtain a b where ab: "run_checks LIVE ?killed
        [(sample_broker 2000, 500), (sample_broker 3000, 800)] = [a, b]"
      using len [of LIVE ?killed "[(sample_broker 2000, 500), (sample_broker 3000, 800)]"]
      by (auto simp: length_Suc_conv)
    from all have "\<forall>res \<in> set [a, b]. res = (True, KillSwitchActive)" unfolding ab .
    then have "a = (True, KillSwitchActive)" "b = (True, KillSwitchActive)" by simp_all
    with ab show ?thesis by (simp only:)
  qed
  from n day have c4: "reset_if_new_day (sample_broker 2000) risk_init 2000
          = \<lparr> start_of_day_capital = Some 2000,
              last_reset_date = Some (be_today (sample_broker 2000)), killed_today = False \<rparr>"
    by blast
  have c5: "be_today (sample_broker 2000) = ''2026-01-05''" by (simp add: sample_broker_def)
  from check_sample_fires c1 c2 c3 c4 day(3) show ?thesis unfolding c5 by simp
qed

section \<open>Regime direction filter\<close>

text \<open>
  Claim C3, as amended. When the earlier checks of \<open>can_trade\<close> pass, a CALL candidate
  in a bear regime (and a PUT candidate in a bull regime) is denied with the
  regime-specific reason exactly when the signal's composite score is below 16; at a
  score of 16 or more it is admitted.
\<close>

theorem regime_filter_threshold:
  assumes "check_daily_loss_limit cfg env st cap = (st', False, r)"
    and "\<not> cap < cfg_min_capital_to_trade cfg"
    and "\<not> get_open_position_count env \<ge> dynamic_max_positions cfg env"
    and "\<not> tr_total_cost tr > cap"
    and "\<not> tr_total_cost tr > dynamic_capital_limit cfg env"
  shows "can_trade cfg env st tr cap ''bear'' =
           (if sig_direction (tr_signal tr) = Some CALL \<and> sig_score (tr_signal tr) < 16
            then (st', False, BlockedCallInBear (sig_score (tr_signal tr)))
            else (st', True, OK))
       \<and> can_trade cfg env st tr cap ''bull'' =
           (if sig_direction (tr_signal tr) = Some PUT \<and> sig_score (tr_signal tr) < 16
            then (st', False, BlockedPutInBull (sig_score (tr_signal tr)))
            else (st', True, OK))"
  using assms by (simp add: can_trade_def Let_def)

text \<open>
  The amended claim C3 on the sandbox configuration: a bear-regime CALL with score 12 is
  denied with the bear-regime reason, the same candidate with score 17 is admitted.
\<close>

theorem regime_filter_threshold_witness:
  "check_daily_loss_limit CONFIG (sample_broker 1000) risk_init 125
     = (\<lparr> start_of_day_capital = Some 125, last_reset_date = Some ''2026-01-05'',
          killed_today = False \<rparr>, False, OK)
   \<and> \<not> 125 < cfg_min_capital_to_trade CONFIG
   \<and> \<not> get_open_position_count (sample_broker 1000)
         \<ge> dynamic_max_positions CONFIG (sample_broker 1000)
   \<and> \<not> tr_total_cost (sample_trade 100 (sample_signal CALL 12)) > 125
   \<and> \<not> tr_total_cost (sample_trade 100 (sample_signal CALL 12))
         > dynamic_capital_limit CONFIG (sample_broker 1000)
   \<and> can_trade CONFIG (sample_broker 1000) risk_init
        (sample_trade 100 (sample_signal CALL 12)) 125 ''bear''
      = (\<lparr> start_of_day_capital = Some 125, last_reset_date = Some ''2026-01-05'',
           killed_today = False \<rparr>, False, BlockedCallInBear 12)
   \<and> can_trade CONFIG (sample_broker 1000) risk_init
        (sample_trade 100 (sample_signal CALL 17)) 125 ''bear''
      = (\<lparr> start_of_day_capital = Some 125, last_reset_date = Some ''2026-01-05'',
           killed_today = False \<rparr>, True, OK)"
proof -
  have h: "\<not> 125 < cfg_min_capital_to_trade CONFIG"
    "\<not> get_open_position_count (sample_broker 1000)
         \<ge> dynamic_max_positions CONFIG (sample_broker 1000)"
    "\<not> tr_total_cost (sample_trade 100 (sample_signal CALL sc)) > 125"
    "\<not> tr_total_cost (sample_trade 100 (sample_signal CALL sc))
         > dynamic_capital_limit CONFIG (sample_broker 1000)" for sc
    by (simp_all add: CONFIG_def sample_broker_def sample_trade_def get_open_position_count_def
          dynamic_max_positions_def dynamic_capital_limit_def get_account_balance_def
          sandbox_on_def Let_def)
  from regime_filter_threshold [OF check_sample_sandbox h(1) h(2) h(3) [of 12] h(4) [of 12]]
  have low: "can_trade CONFIG (sample_broker 1000) risk_init
          (sample_trade 100 (sample_signal CALL 12)) 125 ''bear''
        = (\<lparr> start_of_day_capital = Some 125, last_reset_date = Some ''2026-01-05'',
             killed_today = False \<rparr>, False, BlockedCallInBear 12)"
    by (simp add: sample_trade_def sample_signal_def)
  from regime_filter_threshold [OF check_sample_sandbox h(1) h(2) h(3) [of 17] h(4) [of 17]]
  have high: "can_trade CONFIG (sample_broker 1000) risk_init
          (sample_trade 100 (sample_signal CALL 17)) 125 ''bear''
        = (\<lparr> start_of_day_capital = Some 125, last_reset_date = Some ''2026-01-05'',
             killed_today = False \<rparr>, True, OK)"
    by (simp add: sample_trade_def sample_signal_def)
  from check_sample_sandbox h(1) h(2) h(3) [of 12] h(4) [of 12] low high show ?thesis by blast
qed

text \<open>
  Claim C3 as stated fails at the threshold: a bear-regime CALL whose score is 16, which
  does not exceed 16, is admitted.
\<close>

theorem regime_filter_counterexample:
  "\<not> 16 < sig_score (tr_signal (sample_trade 100 (sample_signal CALL 16)))
   \<and> sig_direction (tr_signal (sample_trade 100 (sample_signal CALL 16))) = Some CALL
   \<and> snd (can_trade CONFIG (sample_broker 1000) risk_init
            (sample_trade 100 (sample_signal CALL 16)) 125 ''bear'') = (True, OK)"
  unfolding can_trade_def check_sample_sandbox
  by (simp add: Let_def CONFIG_def sample_broker_def
        sample_trade_def sample_signal_def get_open_position_count_def
        dynamic_max_positions_def dynamic_capital_limit_def get_account_balance_def
        sandbox_on_def)

section \<open>Trailing stop\<close>



section \<open>Provider bonuses\<close>

lemma score_insider_range: "2 \<le> ib_score (score_insider d) \<and> ib_score (score_insider d) \<le> 5"
  by (simp add: score_insider_def Let_def case_prod_beta split: option.splits)

lemma score_earnings_range:
  "0 \<le> sr_score (score_earnings t d) \<and> sr_score (score_earnings t d) \<le> 4"
  by (simp add: score_earnings_def split: option.splits)

lemma score_gap_range:
  "0 \<le> sr_score (score_gap t g) \<and> sr_score (score_gap t g) \<le> 3"
  by (simp add: score_gap_def Let_def case_prod_beta split: option.splits)

lemma score_gap_direction:
  "2 \<le> sr_score (score_gap t g) \<Longrightarrow> sr_direction (score_gap t g) \<noteq> None"
  by (cases g) (auto simp: score_gap_def Let_def case_prod_beta split: if_splits)

lemma scan_one_bonus:
  "0 \<le> cat_total_bonus (scan_one e g t) \<and> cat_total_bonus (scan_one e g t) \<le> 6"
  using score_earnings_range [of t "e t"] score_gap_range [of t "g t"]
  by (simp add: scan_one_def Let_def)

lemma top_catalyst_bonus:
  assumes "c \<in> set (get_top_catalyst_tickers e g m)"
  shows "m \<le> cat_total_bonus c \<and> 0 \<le> cat_total_bonus c \<and> cat_total_bonus c \<le> 6"
proof -
  from assms have "c \<in> set (scan e g (dedup [] UNIVERSE))" and m: "m \<le> cat_total_bonus c"
    unfolding get_top_catalyst_tickers_def by simp_all
  then obtain t where "c = scan_one e g t" unfolding scan_def by auto
  with m show ?thesis using scan_one_bonus [of e g t] by simp
qed

lemma dict_of_in_set: "dict_of key xs k = Some x \<Longrightarrow> x \<in> set xs"
  unfolding dict_of_def by (drule map_of_SomeD) auto

lemma merge_bonus_score:
  "sig_score (merge_bonus i c t sig) =
     py_round_nd (sig_score sig
        + of_int ((case i t of Some b \<Rightarrow> ib_score b | None \<Rightarrow> 0)
                  + (case c t of Some x \<Rightarrow> cat_total_bonus x | None \<Rightarrow> 0))) 1"
  by (simp add: merge_bonus_def Let_def)

lemma merge_bonus_fields:
  "sig_insider_bonus (merge_bonus i c t sig) = Some (case i t of Some b \<Rightarrow> ib_score b | None \<Rightarrow> 0)
   \<and> sig_catalyst_bonus (merge_bonus i c t sig)
       = Some (case c t of Some x \<Rightarrow> cat_total_bonus x | None \<Rightarrow> 0)"
  by (simp add: merge_bonus_def Let_def)

lemma blend_score_rounded:
  "\<exists>x. sig_score (blend_timeframes t r s1 s2 s3 a p) = py_round_nd x 1"
  unfolding blend_timeframes_def Let_def
  by (simp only: signal.select_convs, rule exI, rule refl)

lemma merge_bonus_direction:
  "(sig_direction sig \<noteq> None \<longrightarrow> sig_direction (merge_bonus i c t sig) \<noteq> None)
   \<and> (sig_direction (merge_bonus i c t sig) \<noteq> sig_direction sig
        \<longrightarrow> sig_direction (merge_bonus i c t sig) \<noteq> None)"
  by (simp add: merge_bonus_def Let_def split: option.splits)

lemma scan_ticker_direction:
  assumes "scan_ticker env regime i c m t = Some s"
  shows "sig_direction s \<noteq> None"
proof -
  from assms obtain sig where "sig_direction sig \<noteq> None" and "s = merge_bonus i c t sig"
    unfolding scan_ticker_def Let_def by (auto split: option.splits if_splits)
  with merge_bonus_direction [of sig i c t] show ?thesis by blast
qed


lemma py_round_of_int: "py_round (of_int k) = k"
  by (simp add: py_round_def Let_def)

lemma py_round_nd_shift:
  "py_round_nd (py_round_nd x 1 + of_int n) 1 = py_round_nd x 1 + of_int n"
proof -
  define k where "k = py_round (x * 10 ^ 1)"
  have "(of_int k / 10 ^ 1 + of_int n) * 10 ^ 1 = (of_int (k + 10 * n) :: real)"
    by (simp add: field_simps)
  then have "py_round ((of_int k / 10 ^ 1 + of_int n) * 10 ^ 1) = k + 10 * n"
    by (simp only: py_round_of_int)
  then show ?thesis
    unfolding py_round_nd_def k_def [symmetric] by (simp add: field_simps)
qed

lemma insider_buys_range:
  assumes "b \<in> set (get_todays_insider_buys a)"
  shows "2 \<le> ib_score b \<and> ib_score b \<le> 5"
proof (cases a)
  case None
  with assms show ?thesis by (simp add: get_todays_insider_buys_def)
next
  case (Some ds)
  with assms have "b \<in> set (take MAX_RESULTS
      (sort_key (\<lambda>x. (- ib_score x, - ib_total_buy_value x)) (map score_insider ds)))"
    by (simp add: get_todays_insider_buys_def)
  then have "b \<in> set (map score_insider ds)" by (auto dest: in_set_takeD)
  then show ?thesis using score_insider_range by auto
qed

lemma merge_provider_bonus:
  fixes env :: scan_env
  defines "insider_scores \<equiv> dict_of ib_ticker
             (filter (\<lambda>b. se_liquid env (ib_ticker b)) (get_todays_insider_buys (se_insider env)))"
  defines "catalyst_scores \<equiv> dict_of cat_ticker
             (get_top_catalyst_tickers (se_earnings env) (se_gaps env) 2)"
  assumes st: "score_ticker ind atr ticker regime f = Some sig"
  shows "\<exists>ib cb. sig_insider_bonus (merge_bonus insider_scores catalyst_scores ticker sig) = Some ib
            \<and> sig_catalyst_bonus (merge_bonus insider_scores catalyst_scores ticker sig) = Some cb
            \<and> 0 \<le> ib \<and> 0 \<le> cb
            \<and> sig_score (merge_bonus insider_scores catalyst_scores ticker sig)
                = sig_score sig + of_int (ib + cb)"
proof -
  define ib where "ib = (case insider_scores ticker of Some b \<Rightarrow> ib_score b | None \<Rightarrow> 0)"
  define cb where "cb = (case catalyst_scores ticker of Some x \<Rightarrow> cat_total_bonus x | None \<Rightarrow> 0)"
  have ib0: "0 \<le> ib"
  proof (cases "insider_scores ticker")
    case None
    then show ?thesis by (simp add: ib_def)
  next
    case (Some b)
    then have "b \<in> set (filter (\<lambda>b. se_liquid env (ib_ticker b))
                          (get_todays_insider_buys (se_insider env)))"
      unfolding insider_scores_def by (rule dict_of_in_set)
    then have "b \<in> set (get_todays_insider_buys (se_insider env))" by simp
    from insider_buys_range [OF this] Some show ?thesis by (simp add: ib_def)
  qed
  have cb0: "0 \<le> cb"
  proof (cases "catalyst_scores ticker")
    case None
    then show ?thesis by (simp add: cb_def)
  next
    case (Some x)
    then have "x \<in> set (get_top_catalyst_tickers (se_earnings env) (se_gaps env) 2)"
      unfolding catalyst_scores_def by (rule dict_of_in_set)
    from top_catalyst_bonus [OF this] Some show ?thesis by (simp add: cb_def)
  qed
  from score_ticker_blend [OF st] blend_score_rounded
  obtain x where x: "sig_score sig = py_round_nd x 1" by metis
  have sc: "sig_score (merge_bonus insider_scores catalyst_scores ticker sig)
              = sig_score sig + of_int (ib + cb)"
    unfolding merge_bonus_score ib_def [symmetric] cb_def [symmetric] x
    by (rule py_round_nd_shift)
  have f: "sig_insider_bonus (merge_bonus insider_scores catalyst_scores ticker sig) = Some ib"
    "sig_catalyst_bonus (merge_bonus insider_scores catalyst_scores ticker sig) = Some cb"
    using merge_bonus_fields [of insider_scores catalyst_scores ticker sig]
    by (simp_all add: ib_def cb_def)
  from sc f ib0 cb0 show ?thesis by blast
qed

text \<open>
  Claim C7. For a technical signal of \<open>score_ticker\<close> that \<open>get_top_signals\<close> merges
  with the bonuses of the insider tracker and of the catalyst scanner, both bonuses are
  non-negative, the merged score is the technical score plus their sum, and so the
  score after the merge is at least the score before it.
\<close>

theorem bonus_merge_monotone:
  fixes env :: scan_env
  defines "insider_scores \<equiv> dict_of ib_ticker
             (filter (\<lambda>b. se_liquid env (ib_ticker b)) (get_todays_insider_buys (se_insider env)))"
  defines "catalyst_scores \<equiv> dict_of cat_ticker
             (get_top_catalyst_tickers (se_earnings env) (se_gaps env) 2)"
  assumes st: "score_ticker (se_ind env) (se_atr env) ticker regime (se_fetch env ticker)
                 = Some sig"
  shows "sig_score sig \<le> sig_score (merge_bonus insider_scores catalyst_scores ticker sig)
       \<and> (\<exists>ib cb. sig_insider_bonus (merge_bonus insider_scores catalyst_scores ticker sig) = Some ib
            \<and> sig_catalyst_bonus (merge_bonus insider_scores catalyst_scores ticker sig) = Some cb
            \<and> 0 \<le> ib \<and> 0 \<le> cb
            \<and> sig_score (merge_bonus insider_scores catalyst_scores ticker sig)
                = sig_score sig + of_int (ib + cb))"
proof -
  from merge_provider_bonus [OF st, of env] obtain ib cb where
    b: "sig_insider_bonus (merge_bonus insider_scores catalyst_scores ticker sig) = Some ib"
       "sig_catalyst_bonus (merge_bonus insider_scores catalyst_scores ticker sig) = Some cb"
       "0 \<le> ib" "0 \<le> cb"
       "sig_score (merge_bonus insider_scores catalyst_scores ticker sig)
          = sig_score sig + of_int (ib + cb)"
    unfolding insider_scores_def catalyst_scores_def by blast
  from b(3,4) have "sig_score sig \<le> sig_score sig + of_int (ib + cb)" by simp
  with b show ?thesis by auto
qed

section \<open>The sample scan\<close>

lemma sample_timeframe:
  "score_timeframe sample_ind sample_frame label
     = \<lparr> tf_points = 13, tf_direction = Some CALL, tf_votes = Some (5, 0),
         tf_reasons = [(label, RsiStrong), (label, MacdAccelBullish),
                       (label, SqueezeBreakout CALL), (label, VolumeSurgeObvRising),
                       (label, AboveVwap)] \<rparr>"
  by (simp add: score_timeframe_def sample_frame_def sample_ind_def sample_indicators_def
        rsi_step_def macd_step_def squeeze_step_def volume_step_def vwap_step_def
        majority_def Let_def)

lemma sample_technical_fields:
  "sig_direction sample_technical = Some CALL \<and> sig_score sample_technical = 20
   \<and> sig_confluence sample_technical = 4"
  by (simp add: sample_technical_def sample_timeframe blend_timeframes_def confluence_of_def
        majority_def py_round_nd_def py_round_def Let_def)

lemma sample_score_ticker:
  "score_ticker (se_ind sample_scan) (se_atr sample_scan) ''TSLA'' ''neutral''
       (se_fetch sample_scan ''TSLA'') = Some sample_technical"
  by (simp add: score_ticker_def sample_scan_def sample_technical_def sample_frame_def)

lemma in_set_map_filter:
  "y \<in> set (List.map_filter f xs) \<longleftrightarrow> (\<exists>x \<in> set xs. f x = Some y)"
  by (induction xs) (auto split: option.splits)

lemma top_signals_member:
  assumes "scan_ticker env (market_regime (se_spy env))
             (dict_of ib_ticker (filter (\<lambda>b. se_liquid env (ib_ticker b))
                (get_todays_insider_buys (se_insider env))))
             (dict_of cat_ticker (get_top_catalyst_tickers (se_earnings env) (se_gaps env) 2))
             min_score t = Some s"
    and "t \<in> set WATCHLIST"
  shows "s \<in> set (get_top_signals env min_score)"
proof -
  have dd: "set (dedup seen xs) = set xs - set seen" for seen xs :: "string list"
    by (induction seen xs rule: dedup.induct) auto
  from assms(2) have "t \<in> set (dedup [] (WATCHLIST
        @ map ib_ticker (filter (\<lambda>b. se_liquid env (ib_ticker b))
                (get_todays_insider_buys (se_insider env)))
        @ map cat_ticker (get_top_catalyst_tickers (se_earnings env) (se_gaps env) 2)))"
    by (simp add: dd)
  with assms(1) show ?thesis
    unfolding get_top_signals_def Let_def set_sort in_set_map_filter by blast
qed


lemma sample_scan_ticker:
  "scan_ticker sample_scan (market_regime (se_spy sample_scan)) sample_insider_scores
     sample_catalyst_scores 13 ''TSLA''
   = Some (merge_bonus sample_insider_scores sample_catalyst_scores ''TSLA'' sample_technical)"
proof -
  have r: "market_regime (se_spy sample_scan) = ''neutral''"
    by (simp add: market_regime_def sample_scan_def)
  from merge_provider_bonus [OF sample_score_ticker, of sample_scan]
  have "20 \<le> sig_score (merge_bonus sample_insider_scores sample_catalyst_scores ''TSLA''
                  sample_technical)"
    unfolding sample_insider_scores_def [symmetric] sample_catalyst_scores_def [symmetric]
    using sample_technical_fields by auto
  then show ?thesis
    unfolding scan_ticker_def r sample_score_ticker Let_def
    using sample_technical_fields by simp
qed

text \<open>Claim C7 on the sample scan, for the technical signal of TSLA.\<close>

theorem bonus_merge_monotone_witness:
  "score_ticker (se_ind sample_scan) (se_atr sample_scan) ''TSLA'' ''neutral''
       (se_fetch sample_scan ''TSLA'') = Some sample_technical
   \<and> sig_score sample_technical
       \<le> sig_score (merge_bonus sample_insider_scores sample_catalyst_scores ''TSLA''
                      sample_technical)"
  using bonus_merge_monotone [OF sample_score_ticker] sample_score_ticker
  unfolding sample_insider_scores_def sample_catalyst_scores_def by blast

section \<open>Direction of the ranked signals\<close>

text \<open>
  Claim C8. Every signal in the list that \<open>get_top_signals\<close> returns has a direction
  (CALL or PUT), and the merge never takes a direction away: a signal that has one keeps
  one, and a direction that the merge changes (the catalyst bias among them) is changed
  to CALL or PUT.
\<close>

theorem top_signals_directed:
  "(s \<in> set (get_top_signals env min_score) \<longrightarrow> sig_direction s \<noteq> None)
   \<and> (sig_direction sig \<noteq> None \<longrightarrow> sig_direction (merge_bonus i c t sig) \<noteq> None)
   \<and> (sig_direction (merge_bonus i c t sig) \<noteq> sig_direction sig
        \<longrightarrow> sig_direction (merge_bonus i c t sig) \<noteq> None)"
proof -
  have "sig_direction s \<noteq> None" if "s \<in> set (get_top_signals env min_score)"
  proof -
    from that obtain regime ins cat t where "scan_ticker env regime ins cat min_score t = Some s"
      unfolding get_top_signals_def Let_def set_sort in_set_map_filter by blast
    then show ?thesis by (rule scan_ticker_direction)
  qed
  with merge_bonus_direction [of sig i c t] show ?thesis by blast
qed

text \<open>Claim C8 on the sample scan: the merged TSLA signal is ranked and has a direction.\<close>

theorem top_signals_directed_witness:
  "merge_bonus sample_insider_scores sample_catalyst_scores ''TSLA'' sample_technical
     \<in> set (get_top_signals sample_scan 13)
   \<and> sig_direction (merge_bonus sample_insider_scores sample_catalyst_scores ''TSLA''
                       sample_technical) \<noteq> None"
proof -
  have w: "''TSLA'' \<in> set WATCHLIST" by (simp add: WATCHLIST_def)
  have "merge_bonus sample_insider_scores sample_catalyst_scores ''TSLA'' sample_technical
          \<in> set (get_top_signals sample_scan 13)"
    using top_signals_member [OF _ w, of sample_scan 13] sample_scan_ticker
    unfolding sample_insider_scores_def sample_catalyst_scores_def by blast
  with top_signals_directed
         [of "merge_bonus sample_insider_scores sample_catalyst_scores ''TSLA'' sample_technical"
             sample_scan 13]
  show ?thesis by blast
qed

end
